theory Spec2Isabelle
  imports Main "HOL-Library.Word"
begin

section \<open>Data model\<close>

text \<open>
  The development follows the OAuth version of the bot (the file that declares
  \<open>UserToken\<close>, \<open>handleConnectDrive\<close>, \<open>oauthCallbackHandler\<close>, \<open>handleFile\<close> and
  \<open>webhookHandler\<close>), and, for the download step, the earlier service-account version
  of \<open>handleFile\<close> that checks the HTTP status of the download.

  Every call that leaves the process (Firestore, the OAuth token endpoint, the Telegram
  bot API, the HTTP download, the Drive API) is answered by an explicit environment
  \<open>env\<close>, and every such call is recorded, in program order, in a list of events.
  Log lines are not modelled.

  The handlers that take a message are modelled in two layers. \<open>handleConnectDrive\<close>
  and \<open>handleFile\<close> are given on a \<open>message\<close>, whose chat and sender are present. The
  webhook works on a \<open>decoded_message\<close>, in which either pointer may be nil, and there a
  run of the same code ends in a panic at the first dereference of a nil pointer.
\<close>

type_synonym byte = "8 word"

text \<open>A \<open>time.Time\<close> value; the handlers only copy time stamps.\<close>

type_synonym timestamp = int

text \<open>The four fields of \<open>oauth2.Token\<close> that the program reads and writes.\<close>

record oauth2_Token =
  tAccessToken :: string
  tTokenType :: string
  tRefreshToken :: string
  tExpiry :: timestamp

text \<open>\<open>type UserToken struct\<close>, field by field.\<close>

record UserToken =
  UserID :: int
  RefreshToken :: string
  TokenType :: string
  Expiry :: timestamp
  AccessToken :: string
  CreatedAt :: timestamp

text \<open>
  The document written to the collection \<open>oauth_states\<close> by \<open>handleConnectDrive\<close>:
  the map with the keys \<open>user_id\<close> and \<open>created_at\<close>.
\<close>

record state_doc =
  sd_user_id :: int
  sd_created_at :: timestamp

definition tokenCollection :: string where
  "tokenCollection = ''user_tokens''"

definition stateCollection :: string where
  "stateCollection = ''oauth_states''"

text \<open>
  The two Firestore collections, each a map from document id to document. A document
  read back is the document that was written.
\<close>

record store =
  oauth_states :: "string \<rightharpoonup> state_doc"
  user_tokens :: "string \<rightharpoonup> UserToken"

text \<open>
  Modelled from the spec: the message type of the bot library is not part of the
  sources. Following the spec's InboundMessage, a message carries its identifier, the
  chat and the sender identity, an optional command (present exactly when \<open>IsCommand()\<close>
  holds, and then the value of \<open>Command()\<close>), its text, an optional document (file id,
  file name, declared size) and a list of photo size variants (file id, declared size).
  In a \<open>message\<close> the chat and the sender are present; \<open>ChatID\<close> is \<open>Chat.ID\<close> and
  \<open>FromID\<close> is \<open>From.ID\<close>.
\<close>

record document =
  FileID :: string
  FileName :: string
  FileSize :: int

record photo_size =
  pFileID :: string
  pFileSize :: int

record message =
  MessageID :: int
  ChatID :: int
  FromID :: int
  Command :: "string option"
  Text :: string
  Document :: "document option"
  Photo :: "photo_size list"


text \<open>The part of an \<open>http.Response\<close> that the program looks at.\<close>

record http_response =
  StatusCode :: nat
  Body :: string

text \<open>
  The texts sent to the chat. The fixed texts are Chinese literals in the source and are
  named here by what they say; the three texts built with \<open>Sprintf\<close> or \<open>+\<close> carry
  their variable part.
\<close>

datatype reply_text =
    LinkGenerationFailed      \<comment> \<open>the state could not be saved\<close>
  | AuthorizeLink string      \<comment> \<open>"please click the link to authorize ..." followed by the URL\<close>
  | NotLinked                 \<comment> \<open>"your Google Drive account is not linked yet, use /connect_drive"\<close>
  | LookupFailed              \<comment> \<open>"an error occurred reading your authorization, try again later"\<close>
  | DriveConnectionFailed     \<comment> \<open>"an error occurred creating the Google Drive connection"\<close>
  | FileTooLarge string       \<comment> \<open>"the file size is %.2f MB, over the 20 MB download limit ..."\<close>
  | CannotGetFile             \<comment> \<open>"cannot get the file, try again later"\<close>
  | CannotDownloadFile        \<comment> \<open>"cannot download the file, try again later"\<close>
  | DownloadStatusError       \<comment> \<open>"an error occurred downloading the file from Telegram"\<close>
  | UploadFailed              \<comment> \<open>"the upload to Google Drive failed"\<close>
  | Uploaded string           \<comment> \<open>"file '%s' was uploaded to your Google Drive"\<close>
  | Welcome                   \<comment> \<open>"welcome, use /connect_drive to authorize Google Drive"\<close>
  | UnknownCommand            \<comment> \<open>"unrecognized command"\<close>
  | SendFileOrConnect         \<comment> \<open>"please send a file or use the /connect_drive command"\<close>

text \<open>The bodies written to an HTTP response.\<close>

datatype page =
    NoBody
  | BadRequest                \<comment> \<open>\<open>bad request\<close>\<close>
  | InvalidState              \<comment> \<open>\<open>Invalid state parameter. Please try again.\<close>\<close>
  | ExchangeFailed            \<comment> \<open>\<open>Failed to exchange token.\<close>\<close>
  | SaveFailed                \<comment> \<open>\<open>Failed to save token.\<close>\<close>
  | AuthorizationSucceeded    \<comment> \<open>"authorization succeeded, you can now go back to Telegram ..."\<close>

text \<open>Whose authority a Drive upload runs under.\<close>

datatype drive_auth = ServiceAccount | UserClient oauth2_Token

datatype event =
    FsGet string string                     \<comment> \<open>collection, document id\<close>
  | FsSet string string
  | FsDelete string string
  | Exchange string                         \<comment> \<open>\<open>oauth2Config.Exchange\<close> of a code\<close>
  | OAuthClient oauth2_Token                \<comment> \<open>\<open>oauth2Config.Client\<close> over a token\<close>
  | DriveNewService
  | GetFileDirectURL string
  | HttpGet string
  | BodyClose
  | DriveCreate drive_auth string "string list" string
                                            \<comment> \<open>authority, file name, parents, media\<close>
  | Reply int int reply_text                \<comment> \<open>chat, message replied to, text\<close>

datatype fs_error = NotFound | Unavailable

text \<open>
  What the outside world answers during one handler invocation.
  \<^item> \<open>random_bytes\<close>: the bytes the random source delivers to this read; the source
    fails when they are fewer than the bytes asked for.
  \<^item> \<open>fs_get_fault\<close>, \<open>fs_set_fault\<close>, \<open>fs_delete_fault\<close>: the Firestore call of that kind
    fails for a reason other than a missing document, and has no effect.
  \<^item> \<open>exchange\<close>: the token endpoint's answer to a code (\<open>None\<close>: an error).
  \<^item> \<open>new_service_error\<close>: \<open>drive.NewService\<close> returns an error.
  \<^item> \<open>direct_url\<close>: \<open>bot.GetFileDirectURL\<close> (\<open>None\<close>: an error).
  \<^item> \<open>http_get\<close>: \<open>http.Get\<close> (\<open>None\<close>: a transport error, no response).
  \<^item> \<open>drive_create\<close>: whether \<open>Files.Create(...).Media(...).Do()\<close> succeeds.
  \<^item> \<open>auth_code_url\<close>: \<open>oauth2Config.AuthCodeURL\<close> with offline access and forced
    approval, as a function of the state.
\<close>

record env =
  random_bytes :: "byte list"
  now :: timestamp
  fs_get_fault :: bool
  fs_set_fault :: bool
  fs_delete_fault :: bool
  exchange :: "string \<Rightarrow> oauth2_Token option"
  new_service_error :: bool
  direct_url :: "string \<Rightarrow> string option"
  http_get :: "string \<Rightarrow> http_response option"
  drive_create :: "drive_auth \<Rightarrow> string \<Rightarrow> string \<Rightarrow> bool"
  auth_code_url :: "string \<Rightarrow> string"

section \<open>Library calls\<close>

text \<open>\<open>DocumentRef.Get\<close>: an error when the call fails or the document is missing.\<close>

definition fs_Get :: "env \<Rightarrow> (string \<rightharpoonup> 'd) \<Rightarrow> string \<Rightarrow> fs_error + 'd" where
  "fs_Get e coll k =
     (if fs_get_fault e then Inl Unavailable
      else case coll k of None \<Rightarrow> Inl NotFound | Some d \<Rightarrow> Inr d)"

text \<open>\<open>DocumentRef.Set\<close>: \<open>None\<close> is the error return; the collection is then unchanged.\<close>

definition fs_Set :: "env \<Rightarrow> (string \<rightharpoonup> 'd) \<Rightarrow> string \<Rightarrow> 'd \<Rightarrow> (string \<rightharpoonup> 'd) option" where
  "fs_Set e coll k d = (if fs_set_fault e then None else Some (coll(k \<mapsto> d)))"

text \<open>\<open>DocumentRef.Delete\<close>; its caller discards the result.\<close>

definition fs_Delete :: "env \<Rightarrow> (string \<rightharpoonup> 'd) \<Rightarrow> string \<Rightarrow> (string \<rightharpoonup> 'd)" where
  "fs_Delete e coll k = (if fs_delete_fault e then coll else coll(k := None))"

text \<open>
  \<open>rand.Read(b)\<close> on a buffer of \<open>n\<close> bytes, as \<open>crypto/rand\<close> of the Go 1.24
  toolchain behaves, with which the Dockerfile builds the program: the read fills the
  buffer entirely and never returns an error; when the source fails, the runtime
  terminates the process and the call does not return. \<open>None\<close> is that termination.
  The two results that the source discards are then always \<open>n\<close> and \<open>nil\<close>.
\<close>

definition rand_Read :: "env \<Rightarrow> nat \<Rightarrow> byte list option" where
  "rand_Read e n =
     (if length (random_bytes e) < n then None else Some (take n (random_bytes e)))"

text \<open>\<open>base64.URLEncoding.EncodeToString\<close>: the URL-safe alphabet, padded with \<open>=\<close>.\<close>

definition encodeURL :: string where
  "encodeURL = ''ABCDEFGHIJKLMNOPQRSTUVWXYZabcdefghijklmnopqrstuvwxyz0123456789-_''"

fun EncodeToString :: "byte list \<Rightarrow> string" where
  "EncodeToString [] = []"
| "EncodeToString [a] =
     [encodeURL ! (unat a div 4), encodeURL ! (unat a mod 4 * 16), CHR ''='', CHR ''='']"
| "EncodeToString [a, b] =
     [encodeURL ! (unat a div 4),
      encodeURL ! (unat a mod 4 * 16 + unat b div 16),
      encodeURL ! (unat b mod 16 * 4), CHR ''='']"
| "EncodeToString (a # b # c # rest) =
     [encodeURL ! (unat a div 4),
      encodeURL ! (unat a mod 4 * 16 + unat b div 16),
      encodeURL ! (unat b mod 16 * 4 + unat c div 64),
      encodeURL ! (unat c mod 64)] @ EncodeToString rest"

text \<open>\<open>fmt.Sprintf("%d", n)\<close>.\<close>

fun decimal :: "nat \<Rightarrow> string" where
  "decimal n =
     (if n < 10 then [''0123456789'' ! n]
      else decimal (n div 10) @ [''0123456789'' ! (n mod 10)])"

declare decimal.simps [simp del]

definition Sprintf_d :: "int \<Rightarrow> string" where
  "Sprintf_d n = (if n < 0 then CHR ''-'' # decimal (nat (- n)) else decimal (nat n))"

text \<open>
  \<open>float64(n)\<close> for a non-negative integer: the nearest value with a 53-bit
  significand, ties to the even significand. \<open>excess_bits n\<close> is the number of low
  bits that do not fit.
\<close>

definition round_half_even :: "nat \<Rightarrow> nat \<Rightarrow> nat" where
  "round_half_even p q =
     (let d = p div q; r = p mod q
      in if q < 2 * r \<or> (2 * r = q \<and> odd d) then d + 1 else d)"

fun excess_bits :: "nat \<Rightarrow> nat" where
  "excess_bits n = (if n < 2 ^ 53 then 0 else Suc (excess_bits (n div 2)))"

declare excess_bits.simps [simp del]

definition float64_of_nat :: "nat \<Rightarrow> nat" where
  "float64_of_nat n = round_half_even n (2 ^ excess_bits n) * 2 ^ excess_bits n"

text \<open>
  The number of hundredths printed by \<open>Sprintf("%.2f", float64(n)/1024/1024)\<close>. Both
  divisions by 1024 are exact, so the value printed is \<open>float64(n) / 2^20\<close>, and the
  conversion to two decimals rounds \<open>float64(n) * 100 / 2^20\<close> to the nearest integer,
  ties to even.
\<close>

definition MB_hundredths :: "nat \<Rightarrow> nat" where
  "MB_hundredths n = round_half_even (float64_of_nat n * 25) (2 ^ 18)"

definition Sprintf_2f_MB :: "nat \<Rightarrow> string" where
  "Sprintf_2f_MB n =
     (let c = MB_hundredths n
      in decimal (c div 100) @ ''.'' @
         [''0123456789'' ! (c mod 100 div 10), ''0123456789'' ! (c mod 10)])"

text \<open>
  How a reader takes a number with two decimals from a text: the digits before the
  point, the point, and exactly two digits after it. The result is the number of
  hundredths. This is not part of the program; it states what a text says.
\<close>

definition digit_value :: "char \<Rightarrow> nat option" where
  "digit_value c =
     (let code = (of_char c :: nat)
      in if 48 \<le> code \<and> code \<le> 57 then Some (code - 48) else None)"

fun read_digits :: "nat \<Rightarrow> string \<Rightarrow> nat option" where
  "read_digits acc [] = Some acc"
| "read_digits acc (c # cs) =
     (case digit_value c of None \<Rightarrow> None | Some d \<Rightarrow> read_digits (10 * acc + d) cs)"

definition read_2f :: "string \<Rightarrow> nat option" where
  "read_2f s =
     (let whole = takeWhile (\<lambda>c. c \<noteq> CHR ''.'') s;
          rest = drop (length whole) s
      in if whole = [] \<or> length rest \<noteq> 3 then None
         else case read_digits 0 whole of
                None \<Rightarrow> None
              | Some i \<Rightarrow>
                 (case read_digits 0 (tl rest) of
                    None \<Rightarrow> None
                  | Some f \<Rightarrow> Some (100 * i + f)))"

section \<open>The authorization handshake\<close>

text \<open>\<open>replyToUser\<close>: one message sent to the chat (a send error is only logged).\<close>

definition replyToUser :: "int \<Rightarrow> int \<Rightarrow> reply_text \<Rightarrow> event list" where
  "replyToUser chatID replyToMessageID text = [Reply chatID replyToMessageID text]"

text \<open>
  \<open>handleConnectDrive\<close>: 32 bytes are read from the random source into a fresh buffer,
  the buffer is encoded, the state document is written under that name, and the sender
  gets the authorization link. \<open>None\<close>: the process was terminated in the read.
\<close>

definition handleConnectDrive ::
  "env \<Rightarrow> store \<Rightarrow> message \<Rightarrow> (store \<times> event list) option" where
  "handleConnectDrive e s m =
     (case rand_Read e 32 of
        None \<Rightarrow> None
      | Some b \<Rightarrow>
          Some
           (let state = EncodeToString b;
                doc = \<lparr>sd_user_id = FromID m, sd_created_at = now e\<rparr>
            in case fs_Set e (oauth_states s) state doc of
                 None \<Rightarrow>
                   (s, [FsSet stateCollection state] @
                       replyToUser (ChatID m) (MessageID m) LinkGenerationFailed)
               | Some states' \<Rightarrow>
                   (s\<lparr>oauth_states := states'\<rparr>,
                    [FsSet stateCollection state] @
                    replyToUser (ChatID m) (MessageID m)
                      (AuthorizeLink (auth_code_url e state)))))"

text \<open>
  The deferred \<open>doc.Ref.Delete(ctx)\<close> of \<open>oauthCallbackHandler\<close>: it runs when the
  handler returns, after everything else, whatever the return.
\<close>

definition deferred_Delete ::
  "env \<Rightarrow> string \<Rightarrow> (nat \<times> page) \<times> store \<times> event list \<Rightarrow> (nat \<times> page) \<times> store \<times> event list" where
  "deferred_Delete e state r =
     (case r of (resp, s, evs) \<Rightarrow>
        (resp, s\<lparr>oauth_states := fs_Delete e (oauth_states s) state\<rparr>,
         evs @ [FsDelete stateCollection state]))"

text \<open>
  \<open>oauthCallbackHandler\<close>, on the query parameters \<open>state\<close> and \<open>code\<close>. The result is
  the HTTP response (status and body), the stores afterwards and the calls made.
\<close>

definition oauthCallbackHandler ::
  "env \<Rightarrow> store \<Rightarrow> string \<Rightarrow> string \<Rightarrow> (nat \<times> page) \<times> store \<times> event list" where
  "oauthCallbackHandler e s state code =
     (case fs_Get e (oauth_states s) state of
        Inl err \<Rightarrow> ((400, InvalidState), s, [FsGet stateCollection state])
      | Inr doc \<Rightarrow>
          deferred_Delete e state
            (let userID = sd_user_id doc
             in case exchange e code of
                  None \<Rightarrow>
                    ((500, ExchangeFailed), s, [FsGet stateCollection state, Exchange code])
                | Some token \<Rightarrow>
                    (let userToken =
                           \<lparr>UserID = userID,
                            RefreshToken = tRefreshToken token,
                            TokenType = tTokenType token,
                            Expiry = tExpiry token,
                            AccessToken = tAccessToken token,
                            CreatedAt = now e\<rparr>;
                         key = Sprintf_d userID;
                         evs = [FsGet stateCollection state, Exchange code,
                                FsSet tokenCollection key]
                     in case fs_Set e (user_tokens s) key userToken of
                          None \<Rightarrow> ((500, SaveFailed), s, evs)
                        | Some tokens' \<Rightarrow>
                            ((200, AuthorizationSucceeded),
                             s\<lparr>user_tokens := tokens'\<rparr>, evs))))"

section \<open>The upload relay\<close>

text \<open>
  The classification at the head of the upload logic: a document gives its file id,
  file name and size; otherwise a non-empty photo list gives the last variant's file id,
  that id followed by \<open>.jpg\<close>, and its size; anything else gives nothing.
\<close>

definition attachment :: "message \<Rightarrow> (string \<times> string \<times> int) option" where
  "attachment m =
     (case Document m of
        Some d \<Rightarrow> Some (FileID d, FileName d, FileSize d)
      | None \<Rightarrow>
          if length (Photo m) > 0
          then (let photo = Photo m ! (length (Photo m) - 1)
                in Some (pFileID photo, pFileID photo @ ''.jpg'', pFileSize photo))
          else None)"

definition maxFileSize :: int where
  "maxFileSize = 20 * 1024 * 1024"

text \<open>The \<open>oauth2.Token\<close> literal that \<open>handleFile\<close> builds from the stored record.\<close>

definition client_token :: "UserToken \<Rightarrow> oauth2_Token" where
  "client_token userToken =
     \<lparr>tAccessToken = AccessToken userToken,
      tTokenType = TokenType userToken,
      tRefreshToken = RefreshToken userToken,
      tExpiry = Expiry userToken\<rparr>"

text \<open>
  \<open>handleFile\<close> of the OAuth version. It changes no store; the result is the list of
  calls made. The deferred \<open>resp.Body.Close()\<close> is the last event of every path on
  which \<open>http.Get\<close> returned a response.
\<close>

definition handleFile :: "env \<Rightarrow> store \<Rightarrow> message \<Rightarrow> event list" where
  "handleFile e s m =
     (let userID = FromID m;
          key = Sprintf_d userID
      in case fs_Get e (user_tokens s) key of
           Inl err \<Rightarrow>
             [FsGet tokenCollection key] @
             (if err = NotFound
              then replyToUser (ChatID m) (MessageID m) NotLinked
              else replyToUser (ChatID m) (MessageID m) LookupFailed)
         | Inr userToken \<Rightarrow>
             (let token = client_token userToken;
                  evs = [FsGet tokenCollection key, OAuthClient token, DriveNewService]
              in if new_service_error e
                 then evs @ replyToUser (ChatID m) (MessageID m) DriveConnectionFailed
                 else
                  (case attachment m of
                     None \<Rightarrow> evs
                   | Some (fileID, fileName, fileSize) \<Rightarrow>
                       if fileSize > maxFileSize
                       then evs @ replyToUser (ChatID m) (MessageID m)
                                    (FileTooLarge (Sprintf_2f_MB (nat fileSize)))
                       else
                        (case direct_url e fileID of
                           None \<Rightarrow>
                             evs @ [GetFileDirectURL fileID] @
                             replyToUser (ChatID m) (MessageID m) CannotGetFile
                         | Some fileURL \<Rightarrow>
                            (case http_get e fileURL of
                               None \<Rightarrow>
                                 evs @ [GetFileDirectURL fileID, HttpGet fileURL] @
                                 replyToUser (ChatID m) (MessageID m) CannotDownloadFile
                             | Some resp \<Rightarrow>
                                 evs @ [GetFileDirectURL fileID, HttpGet fileURL,
                                        DriveCreate (UserClient token) fileName [] (Body resp)] @
                                 (if drive_create e (UserClient token) fileName (Body resp)
                                  then replyToUser (ChatID m) (MessageID m) (Uploaded fileName)
                                  else replyToUser (ChatID m) (MessageID m) UploadFailed) @
                                 [BodyClose])))))"

text \<open>
  \<open>handleFile\<close> of the service-account version with detailed logging: no credential
  lookup and no size guard, a single Drive service under the service account, uploads
  into the folder \<open>driveFolderID\<close>, and a check of the download's status code.
\<close>

definition handleFile_service_account :: "env \<Rightarrow> string \<Rightarrow> message \<Rightarrow> event list" where
  "handleFile_service_account e driveFolderID m =
     (case attachment m of
        None \<Rightarrow> []
      | Some (fileID, fileName, fileSize) \<Rightarrow>
         (case direct_url e fileID of
            None \<Rightarrow>
              [GetFileDirectURL fileID] @ replyToUser (ChatID m) (MessageID m) CannotGetFile
          | Some fileURL \<Rightarrow>
             (case http_get e fileURL of
                None \<Rightarrow>
                  [GetFileDirectURL fileID, HttpGet fileURL] @
                  replyToUser (ChatID m) (MessageID m) CannotDownloadFile
              | Some resp \<Rightarrow>
                  if StatusCode resp \<noteq> 200
                  then [GetFileDirectURL fileID, HttpGet fileURL] @
                       replyToUser (ChatID m) (MessageID m) DownloadStatusError @ [BodyClose]
                  else [GetFileDirectURL fileID, HttpGet fileURL,
                        DriveCreate ServiceAccount fileName [driveFolderID] (Body resp)] @
                       (if drive_create e ServiceAccount fileName (Body resp)
                        then replyToUser (ChatID m) (MessageID m) (Uploaded fileName)
                        else replyToUser (ChatID m) (MessageID m) UploadFailed) @
                       [BodyClose])))"

section \<open>The webhook dispatcher\<close>





text \<open>An event with the chat of a reply replaced.\<close>

fun to_chat :: "int \<Rightarrow> event \<Rightarrow> event" where
  "to_chat chatID (Reply c replyToMessageID text) = Reply chatID replyToMessageID text"
| "to_chat chatID ev = ev"






section \<open>Sample data\<close>

text \<open>Concrete values on which the theorems below are exercised.\<close>

definition sample_token :: oauth2_Token where
  "sample_token =
     \<lparr>tAccessToken = ''ya29.a0'', tTokenType = ''Bearer'',
      tRefreshToken = ''1//0g'', tExpiry = 1700003600\<rparr>"

definition sample_env :: env where
  "sample_env =
     \<lparr>random_bytes =
        [1, 2, 3, 4, 5, 6, 7, 8, 9, 10, 11, 12, 13, 14, 15, 16,
         17, 18, 19, 20, 21, 22, 23, 24, 25, 26, 27, 28, 29, 30, 31, 32],
      now = 1700000000,
      fs_get_fault = False, fs_set_fault = False, fs_delete_fault = False,
      exchange = (\<lambda>code. if code = ''4/0A'' then Some sample_token else None),
      new_service_error = False,
      direct_url = (\<lambda>fileID. Some (''https://api.telegram.org/file/'' @ fileID)),
      http_get = (\<lambda>url. Some \<lparr>StatusCode = 200, Body = ''%PDF''\<rparr>),
      drive_create = (\<lambda>auth name media. True),
      auth_code_url = (\<lambda>state. ''https://accounts.google.com/o/oauth2/auth?state='' @ state)\<rparr>"

definition empty_store :: store where
  "empty_store = \<lparr>oauth_states = Map.empty, user_tokens = Map.empty\<rparr>"

text \<open>The store after \<open>handleConnectDrive\<close> has issued a state token to user 42.\<close>

definition issued_store :: store where
  "issued_store =
     \<lparr>oauth_states = [''AQIDBAUGBwgJCgsMDQ4PEBESExQVFhcYGRobHB0eHyA='' \<mapsto>
                         \<lparr>sd_user_id = 42, sd_created_at = 1700000000\<rparr>],
      user_tokens = Map.empty\<rparr>"

text \<open>A store in which user 42 has asked for a link and has not yet followed it.\<close>

definition pending_store :: store where
  "pending_store =
     \<lparr>oauth_states = [''st-42'' \<mapsto> \<lparr>sd_user_id = 42, sd_created_at = 1699999000\<rparr>],
      user_tokens = Map.empty\<rparr>"

text \<open>A store in which user 42 is linked.\<close>

definition linked_store :: store where
  "linked_store =
     \<lparr>oauth_states = Map.empty,
      user_tokens =
        [''42'' \<mapsto> \<lparr>UserID = 42, RefreshToken = ''1//0g'', TokenType = ''Bearer'',
                   Expiry = 1700003600, AccessToken = ''ya29.a0'',
                   CreatedAt = 1700000000\<rparr>]\<rparr>"

definition connect_message :: message where
  "connect_message =
     \<lparr>MessageID = 1, ChatID = 100, FromID = 42, Command = Some ''connect_drive'',
      Text = ''/connect_drive'', Document = None, Photo = []\<rparr>"

definition text_message :: message where
  "text_message =
     \<lparr>MessageID = 2, ChatID = 100, FromID = 42, Command = None,
      Text = ''hello'', Document = None, Photo = []\<rparr>"

definition document_message :: "int \<Rightarrow> message" where
  "document_message fileSize =
     \<lparr>MessageID = 3, ChatID = 100, FromID = 42, Command = None, Text = [],
      Document = Some \<lparr>FileID = ''abc123'', FileName = ''report.pdf'', FileSize = fileSize\<rparr>,
      Photo = []\<rparr>"

definition photo_message :: message where
  "photo_message =
     \<lparr>MessageID = 4, ChatID = 100, FromID = 42, Command = None, Text = [],
      Document = None,
      Photo = [\<lparr>pFileID = ''photoS'', pFileSize = 1200\<rparr>,
               \<lparr>pFileID = ''photoXL'', pFileSize = 98000\<rparr>]\<rparr>"





section \<open>Evaluation of the sample data\<close>

lemma Sprintf_d_42: "Sprintf_d 42 = ''42''"
  by (simp add: Sprintf_d_def decimal.simps)

lemma sample_state:
  "rand_Read sample_env 32 = Some (random_bytes sample_env)"
  "EncodeToString (random_bytes sample_env) =
     ''AQIDBAUGBwgJCgsMDQ4PEBESExQVFhcYGRobHB0eHyA=''"
  by (simp_all add: rand_Read_def sample_env_def encodeURL_def)

lemma sample_issue:
  "handleConnectDrive sample_env empty_store connect_message =
     Some (issued_store,
      [FsSet ''oauth_states'' ''AQIDBAUGBwgJCgsMDQ4PEBESExQVFhcYGRobHB0eHyA='',
       Reply 100 1 (AuthorizeLink
         ''https://accounts.google.com/o/oauth2/auth?state=AQIDBAUGBwgJCgsMDQ4PEBESExQVFhcYGRobHB0eHyA='')])"
  by (simp add: handleConnectDrive_def sample_state Let_def)
     (simp add: sample_env_def empty_store_def issued_store_def connect_message_def fs_Set_def
        replyToUser_def stateCollection_def)

section \<open>The authorization callback\<close>

lemma callback_unknown_state:
  "oauth_states s state = None \<Longrightarrow>
   oauthCallbackHandler e s state code = ((400, InvalidState), s, [FsGet stateCollection state])"
  by (simp add: oauthCallbackHandler_def fs_Get_def)




text \<open>
  C2. \<open>oauthCallbackHandler\<close> writes a credential only when the state token is known
  and the code exchange succeeds. A request whose state token is absent from the state
  collection is answered 400 and the credential collection is unchanged; a request whose
  exchange fails is answered 500 and the credential collection is unchanged, and so is
  a request whose credential write fails; when the exchange succeeds and the write goes
  through, the answer is 200 with the confirmation page and the credential of the
  state's owning user is set to the exchanged token fields. Conversely, the credential collection changes only with a known state, a
  successful exchange and the answer 200.
\<close>

theorem callback_persists_only_on_success:
  assumes run: "oauthCallbackHandler e s state code = (resp, s', evs)"
  shows "(oauth_states s state = None \<longrightarrow>
            resp = (400, InvalidState) \<and> user_tokens s' = user_tokens s) \<and>
         (\<forall>doc. fs_Get e (oauth_states s) state = Inr doc \<and> exchange e code = None \<longrightarrow>
            resp = (500, ExchangeFailed) \<and> user_tokens s' = user_tokens s) \<and>
         (\<forall>doc token.
            fs_Get e (oauth_states s) state = Inr doc \<and> exchange e code = Some token \<and>
            fs_set_fault e \<longrightarrow>
            resp = (500, SaveFailed) \<and> user_tokens s' = user_tokens s) \<and>
         (\<forall>doc token.
            fs_Get e (oauth_states s) state = Inr doc \<and> exchange e code = Some token \<and>
            \<not> fs_set_fault e \<longrightarrow>
            resp = (200, AuthorizationSucceeded) \<and>
            user_tokens s' =
              (user_tokens s)(Sprintf_d (sd_user_id doc) \<mapsto>
                 \<lparr>UserID = sd_user_id doc, RefreshToken = tRefreshToken token,
                  TokenType = tTokenType token, Expiry = tExpiry token,
                  AccessToken = tAccessToken token, CreatedAt = now e\<rparr>)) \<and>
         (user_tokens s' \<noteq> user_tokens s \<longrightarrow>
            oauth_states s state \<noteq> None \<and> exchange e code \<noteq> None \<and>
            resp = (200, AuthorizationSucceeded))"
  using run
  by (auto simp: oauthCallbackHandler_def deferred_Delete_def fs_Get_def fs_Set_def Let_def
           split: option.splits sum.splits if_splits)

lemma sample_unknown_state:
  "oauthCallbackHandler sample_env empty_store ''forged'' ''4/0A'' =
     ((400, InvalidState), empty_store, [FsGet ''oauth_states'' ''forged''])"
  by (simp add: callback_unknown_state empty_store_def stateCollection_def)

lemma sample_exchange_failure:
  "oauthCallbackHandler sample_env pending_store ''st-42'' ''wrong'' =
     ((500, ExchangeFailed), empty_store,
      [FsGet ''oauth_states'' ''st-42'', Exchange ''wrong'',
       FsDelete ''oauth_states'' ''st-42''])"
  by (simp add: oauthCallbackHandler_def deferred_Delete_def fs_Get_def fs_Delete_def
        sample_env_def pending_store_def empty_store_def stateCollection_def Let_def)

lemma sample_success:
  "oauthCallbackHandler sample_env pending_store ''st-42'' ''4/0A'' =
     ((200, AuthorizationSucceeded), linked_store,
      [FsGet ''oauth_states'' ''st-42'', Exchange ''4/0A'', FsSet ''user_tokens'' ''42'',
       FsDelete ''oauth_states'' ''st-42''])"
  by (simp add: oauthCallbackHandler_def deferred_Delete_def fs_Get_def fs_Set_def fs_Delete_def
        sample_env_def sample_token_def pending_store_def linked_store_def Sprintf_d_42
        stateCollection_def tokenCollection_def Let_def)

theorem callback_persists_only_on_success_witness:
  "oauth_states empty_store ''forged'' = None \<and>
   fst (oauthCallbackHandler sample_env empty_store ''forged'' ''4/0A'') = (400, InvalidState) \<and>
   user_tokens (fst (snd (oauthCallbackHandler sample_env empty_store ''forged'' ''4/0A''))) =
     user_tokens empty_store \<and>
   exchange sample_env ''wrong'' = None \<and>
   fst (oauthCallbackHandler sample_env pending_store ''st-42'' ''wrong'') = (500, ExchangeFailed) \<and>
   user_tokens (fst (snd (oauthCallbackHandler sample_env pending_store ''st-42'' ''wrong''))) =
     user_tokens pending_store \<and>
   exchange sample_env ''4/0A'' = Some sample_token \<and>
   fst (oauthCallbackHandler sample_env pending_store ''st-42'' ''4/0A'') =
     (200, AuthorizationSucceeded) \<and>
   user_tokens (fst (snd (oauthCallbackHandler sample_env pending_store ''st-42'' ''4/0A'')))
     ''42'' =
     Some \<lparr>UserID = 42, RefreshToken = ''1//0g'', TokenType = ''Bearer'',
           Expiry = 1700003600, AccessToken = ''ya29.a0'', CreatedAt = 1700000000\<rparr>"
proof -
  have get: "fs_Get sample_env (oauth_states pending_store) ''st-42'' =
               Inr \<lparr>sd_user_id = 42, sd_created_at = 1699999000\<rparr>"
    by (simp add: fs_Get_def sample_env_def pending_store_def)
  have ex1: "exchange sample_env ''wrong'' = None"
    and ex2: "exchange sample_env ''4/0A'' = Some sample_token"
    and ok: "\<not> fs_set_fault sample_env" and now: "now sample_env = 1700000000"
    by (simp_all add: sample_env_def)
  have none: "oauth_states empty_store ''forged'' = None"
    by (simp add: empty_store_def)
  from callback_persists_only_on_success [OF sample_unknown_state] none
  have a: "fst (oauthCallbackHandler sample_env empty_store ''forged'' ''4/0A'') =
             (400, InvalidState) \<and>
           user_tokens (fst (snd (oauthCallbackHandler sample_env empty_store ''forged'' ''4/0A''))) =
             user_tokens empty_store"
    by (simp add: sample_unknown_state)
  from callback_persists_only_on_success [OF sample_exchange_failure] get ex1
  have b: "fst (oauthCallbackHandler sample_env pending_store ''st-42'' ''wrong'') =
             (500, ExchangeFailed) \<and>
           user_tokens (fst (snd (oauthCallbackHandler sample_env pending_store ''st-42'' ''wrong''))) =
             user_tokens pending_store"
    by (simp add: sample_exchange_failure)
  from callback_persists_only_on_success [OF sample_success] get ex2 ok
  have c: "fst (oauthCallbackHandler sample_env pending_store ''st-42'' ''4/0A'') =
             (200, AuthorizationSucceeded) \<and>
           user_tokens (fst (snd (oauthCallbackHandler sample_env pending_store ''st-42'' ''4/0A'')))
             ''42'' =
             Some \<lparr>UserID = 42, RefreshToken = ''1//0g'', TokenType = ''Bearer'',
                   Expiry = 1700003600, AccessToken = ''ya29.a0'', CreatedAt = 1700000000\<rparr>"
    by (simp add: sample_success sample_token_def now Sprintf_d_42)
  from a b c none ex1 ex2 show ?thesis by simp
qed

section \<open>The paths of the upload relay\<close>

lemma handleFile_lookup_failed:
  "fs_Get e (user_tokens s) (Sprintf_d (FromID m)) = Inl err \<Longrightarrow>
   handleFile e s m =
     [FsGet tokenCollection (Sprintf_d (FromID m)),
      Reply (ChatID m) (MessageID m) (if err = NotFound then NotLinked else LookupFailed)]"
  by (simp add: handleFile_def replyToUser_def Let_def)

lemma handleFile_service_failed:
  "fs_Get e (user_tokens s) (Sprintf_d (FromID m)) = Inr userToken \<Longrightarrow>
   new_service_error e \<Longrightarrow>
   handleFile e s m =
     [FsGet tokenCollection (Sprintf_d (FromID m)), OAuthClient (client_token userToken),
      DriveNewService, Reply (ChatID m) (MessageID m) DriveConnectionFailed]"
  by (simp add: handleFile_def replyToUser_def Let_def)

lemma handleFile_no_attachment:
  "fs_Get e (user_tokens s) (Sprintf_d (FromID m)) = Inr userToken \<Longrightarrow>
   \<not> new_service_error e \<Longrightarrow> attachment m = None \<Longrightarrow>
   handleFile e s m =
     [FsGet tokenCollection (Sprintf_d (FromID m)), OAuthClient (client_token userToken),
      DriveNewService]"
  by (simp add: handleFile_def Let_def)

lemma handleFile_too_large:
  "fs_Get e (user_tokens s) (Sprintf_d (FromID m)) = Inr userToken \<Longrightarrow>
   \<not> new_service_error e \<Longrightarrow> attachment m = Some (fileID, fileName, fileSize) \<Longrightarrow>
   fileSize > 20 * 1024 * 1024 \<Longrightarrow>
   handleFile e s m =
     [FsGet tokenCollection (Sprintf_d (FromID m)), OAuthClient (client_token userToken),
      DriveNewService,
      Reply (ChatID m) (MessageID m) (FileTooLarge (Sprintf_2f_MB (nat fileSize)))]"
  by (simp add: handleFile_def replyToUser_def maxFileSize_def Let_def)

lemma handleFile_no_url:
  "fs_Get e (user_tokens s) (Sprintf_d (FromID m)) = Inr userToken \<Longrightarrow>
   \<not> new_service_error e \<Longrightarrow> attachment m = Some (fileID, fileName, fileSize) \<Longrightarrow>
   fileSize \<le> 20 * 1024 * 1024 \<Longrightarrow> direct_url e fileID = None \<Longrightarrow>
   handleFile e s m =
     [FsGet tokenCollection (Sprintf_d (FromID m)), OAuthClient (client_token userToken),
      DriveNewService, GetFileDirectURL fileID,
      Reply (ChatID m) (MessageID m) CannotGetFile]"
  by (simp add: handleFile_def replyToUser_def maxFileSize_def Let_def)

lemma handleFile_no_response:
  "fs_Get e (user_tokens s) (Sprintf_d (FromID m)) = Inr userToken \<Longrightarrow>
   \<not> new_service_error e \<Longrightarrow> attachment m = Some (fileID, fileName, fileSize) \<Longrightarrow>
   fileSize \<le> 20 * 1024 * 1024 \<Longrightarrow> direct_url e fileID = Some fileURL \<Longrightarrow>
   http_get e fileURL = None \<Longrightarrow>
   handleFile e s m =
     [FsGet tokenCollection (Sprintf_d (FromID m)), OAuthClient (client_token userToken),
      DriveNewService, GetFileDirectURL fileID, HttpGet fileURL,
      Reply (ChatID m) (MessageID m) CannotDownloadFile]"
  by (simp add: handleFile_def replyToUser_def maxFileSize_def Let_def)

lemma handleFile_response:
  "fs_Get e (user_tokens s) (Sprintf_d (FromID m)) = Inr userToken \<Longrightarrow>
   \<not> new_service_error e \<Longrightarrow> attachment m = Some (fileID, fileName, fileSize) \<Longrightarrow>
   fileSize \<le> 20 * 1024 * 1024 \<Longrightarrow> direct_url e fileID = Some fileURL \<Longrightarrow>
   http_get e fileURL = Some resp \<Longrightarrow>
   handleFile e s m =
     [FsGet tokenCollection (Sprintf_d (FromID m)), OAuthClient (client_token userToken),
      DriveNewService, GetFileDirectURL fileID, HttpGet fileURL,
      DriveCreate (UserClient (client_token userToken)) fileName [] (Body resp),
      Reply (ChatID m) (MessageID m)
        (if drive_create e (UserClient (client_token userToken)) fileName (Body resp)
         then Uploaded fileName else UploadFailed),
      BodyClose]"
  by (simp add: handleFile_def replyToUser_def maxFileSize_def Let_def)

text \<open>Every run of \<open>handleFile\<close> follows one of these seven paths.\<close>

lemma handleFile_paths:
  obtains
    (lookup_failed) err where "fs_Get e (user_tokens s) (Sprintf_d (FromID m)) = Inl err"
  | (service_failed) userToken where
      "fs_Get e (user_tokens s) (Sprintf_d (FromID m)) = Inr userToken" "new_service_error e"
  | (no_attachment) userToken where
      "fs_Get e (user_tokens s) (Sprintf_d (FromID m)) = Inr userToken"
      "\<not> new_service_error e" "attachment m = None"
  | (too_large) userToken fileID fileName fileSize where
      "fs_Get e (user_tokens s) (Sprintf_d (FromID m)) = Inr userToken"
      "\<not> new_service_error e" "attachment m = Some (fileID, fileName, fileSize)"
      "fileSize > 20 * 1024 * 1024"
  | (no_url) userToken fileID fileName fileSize where
      "fs_Get e (user_tokens s) (Sprintf_d (FromID m)) = Inr userToken"
      "\<not> new_service_error e" "attachment m = Some (fileID, fileName, fileSize)"
      "fileSize \<le> 20 * 1024 * 1024" "direct_url e fileID = None"
  | (no_response) userToken fileID fileName fileSize fileURL where
      "fs_Get e (user_tokens s) (Sprintf_d (FromID m)) = Inr userToken"
      "\<not> new_service_error e" "attachment m = Some (fileID, fileName, fileSize)"
      "fileSize \<le> 20 * 1024 * 1024" "direct_url e fileID = Some fileURL"
      "http_get e fileURL = None"
  | (response) userToken fileID fileName fileSize fileURL resp where
      "fs_Get e (user_tokens s) (Sprintf_d (FromID m)) = Inr userToken"
      "\<not> new_service_error e" "attachment m = Some (fileID, fileName, fileSize)"
      "fileSize \<le> 20 * 1024 * 1024" "direct_url e fileID = Some fileURL"
      "http_get e fileURL = Some resp"
proof (cases "fs_Get e (user_tokens s) (Sprintf_d (FromID m))")
  case (Inl err)
  then show ?thesis by (rule lookup_failed)
next
  case (Inr userToken)
  show ?thesis
  proof (cases "new_service_error e")
    case True
    with Inr show ?thesis by (rule service_failed)
  next
    case False
    show ?thesis
    proof (cases "attachment m")
      case None
      with Inr False show ?thesis by (rule no_attachment)
    next
      case (Some a)
      then obtain fileID fileName fileSize where
        att: "attachment m = Some (fileID, fileName, fileSize)"
        by (cases a) auto
      show ?thesis
      proof (cases "fileSize > 20 * 1024 * 1024")
        case True
        with Inr False att show ?thesis by (rule too_large)
      next
        case small: False
        then have le: "fileSize \<le> 20 * 1024 * 1024" by simp
        show ?thesis
        proof (cases "direct_url e fileID")
          case None
          with Inr False att le show ?thesis by (rule no_url)
        next
          case url: (Some fileURL)
          show ?thesis
          proof (cases "http_get e fileURL")
            case None
            with Inr False att le url show ?thesis by (rule no_response)
          next
            case (Some resp)
            with Inr False att le url show ?thesis by (rule response)
          qed
        qed
      qed
    qed
  qed
qed

section \<open>The size guard\<close>

lemma below_ten:
  fixes d :: nat
  assumes "d < 10"
  obtains "d = 0" | "d = 1" | "d = 2" | "d = 3" | "d = 4" | "d = 5" | "d = 6"
    | "d = 7" | "d = 8" | "d = 9"
proof -
  from assms have "d = 0 \<or> d = 1 \<or> d = 2 \<or> d = 3 \<or> d = 4 \<or> d = 5 \<or> d = 6 \<or> d = 7 \<or>
    d = 8 \<or> d = 9"
    by arith
  with that show ?thesis by blast
qed

lemma digit_value_nth: "d < 10 \<Longrightarrow> digit_value (''0123456789'' ! d) = Some d"
  by (erule below_ten) (simp_all add: digit_value_def Let_def)

lemma digit_no_point: "d < 10 \<Longrightarrow> ''0123456789'' ! d \<noteq> CHR ''.''"
  by (erule below_ten) simp_all

lemma read_digits_append:
  "read_digits acc (xs @ ys) =
     (case read_digits acc xs of None \<Rightarrow> None | Some a \<Rightarrow> read_digits a ys)"
  by (induction xs arbitrary: acc) (simp_all split: option.splits)

lemma read_digits_decimal: "read_digits 0 (decimal n) = Some n"
proof (induction n rule: decimal.induct)
  case (1 n)
  show ?case
  proof (cases "n < 10")
    case True
    then show ?thesis
      by (subst decimal.simps) (simp add: digit_value_nth)
  next
    case False
    have d: "n mod 10 < 10" by simp
    have "10 * (n div 10) + n mod 10 = n" by simp
    with False 1 show ?thesis
      by (subst decimal.simps) (simp add: read_digits_append digit_value_nth [OF d])
  qed
qed

lemma decimal_no_point: "CHR ''.'' \<notin> set (decimal n)"
proof (induction n rule: decimal.induct)
  case (1 n)
  show ?case
  proof (cases "n < 10")
    case True
    then show ?thesis
      using digit_no_point [of n] by (subst decimal.simps) auto
  next
    case False
    have d: "n mod 10 < 10" by simp
    from False 1 digit_no_point [OF d] show ?thesis
      by (subst decimal.simps) auto
  qed
qed

lemma decimal_not_empty: "decimal n \<noteq> []"
  by (subst decimal.simps) simp

text \<open>The text printed for a size reads back as the number of hundredths printed.\<close>

lemma read_2f_Sprintf_2f_MB: "read_2f (Sprintf_2f_MB n) = Some (MB_hundredths n)"
proof -
  define c where "c = MB_hundredths n"
  define d1 where "d1 = ''0123456789'' ! (c mod 100 div 10)"
  define d2 where "d2 = ''0123456789'' ! (c mod 10)"
  have b1: "c mod 100 div 10 < 10" and b2: "c mod 10 < 10"
    by simp_all
  have printed: "Sprintf_2f_MB n = decimal (c div 100) @ CHR ''.'' # [d1, d2]"
    by (simp add: Sprintf_2f_MB_def c_def d1_def d2_def Let_def)
  have whole: "takeWhile (\<lambda>ch. ch \<noteq> CHR ''.'') (decimal (c div 100) @ CHR ''.'' # [d1, d2]) =
                 decimal (c div 100)"
    using decimal_no_point [of "c div 100"] by (subst takeWhile_append2) auto
  have frac: "read_digits 0 [d1, d2] = Some (10 * (c mod 100 div 10) + c mod 10)"
    by (simp add: d1_def d2_def digit_value_nth [OF b1] digit_value_nth [OF b2])
  have "c mod 100 = 10 * (c mod 100 div 10) + c mod 100 mod 10"
    by simp
  moreover have "c mod 100 mod 10 = c mod 10"
    by (simp add: mod_mod_cancel)
  ultimately have "100 * (c div 100) + (10 * (c mod 100 div 10) + c mod 10) = c"
    by (metis div_mult_mod_eq mult.commute)
  then show ?thesis
    unfolding printed read_2f_def whole Let_def c_def [symmetric]
    by (simp add: decimal_not_empty read_digits_decimal frac del: read_digits.simps)
qed

lemma float64_of_nat_exact: "n < 2 ^ 53 \<Longrightarrow> float64_of_nat n = n"
  by (simp add: float64_of_nat_def excess_bits.simps round_half_even_def)

lemma round_half_even_near:
  assumes "0 < q"
  shows "2 * (round_half_even p q * q) \<le> 2 * p + q \<and>
         2 * p \<le> 2 * (round_half_even p q * q) + q"
proof -
  define d r where "d = p div q" and "r = p mod q"
  have p: "p = d * q + r" by (simp add: d_def r_def)
  have r: "r < q" using assms by (simp add: r_def)
  show ?thesis
  proof (cases "q < 2 * r \<or> (2 * r = q \<and> odd d)")
    case True
    then have "round_half_even p q = d + 1"
      by (simp add: round_half_even_def Let_def d_def r_def)
    moreover from True have "q \<le> 2 * r" by auto
    ultimately show ?thesis using p r by (simp add: algebra_simps)
  next
    case False
    then have "round_half_even p q = d"
      by (simp add: round_half_even_def Let_def d_def r_def)
    moreover from False have "2 * r \<le> q" by auto
    ultimately show ?thesis using p r by (simp add: algebra_simps)
  qed
qed

lemma excess_bits_lower: "2 ^ 53 \<le> n \<Longrightarrow> 2 ^ 52 * 2 ^ excess_bits n \<le> n"
proof (induction n rule: excess_bits.induct)
  case (1 n)
  define h where "h = n div 2"
  have h: "2 * h \<le> n"
    by (simp add: h_def)
  from "1.prems" have eb: "excess_bits n = Suc (excess_bits h)"
    by (subst excess_bits.simps) (simp add: h_def)
  show ?case
  proof (cases "h < 2 ^ 53")
    case True
    then have "excess_bits h = 0"
      by (subst excess_bits.simps) simp
    with eb "1.prems" show ?thesis by simp
  next
    case False
    with "1.IH" "1.prems" have "2 ^ 52 * 2 ^ excess_bits h \<le> h"
      by (simp add: h_def)
    then have "2 * (2 ^ 52 * 2 ^ excess_bits h) \<le> 2 * h"
      by simp
    with h eb show ?thesis by simp
  qed
qed

text \<open>The conversion to \<open>float64\<close> changes a size by at most its \<open>2^53\<close>-th part.\<close>

lemma float64_of_nat_near:
  "2 ^ 53 * float64_of_nat n \<le> 2 ^ 53 * n + n \<and> 2 ^ 53 * n \<le> 2 ^ 53 * float64_of_nat n + n"
proof (cases "n < 2 ^ 53")
  case True
  then show ?thesis by (simp add: float64_of_nat_exact)
next
  case False
  define Q :: nat where "Q = 2 ^ excess_bits n"
  define F where "F = float64_of_nat n"
  have "0 < Q" by (simp add: Q_def)
  from round_half_even_near [OF this, of n]
  have r: "2 * F \<le> 2 * n + Q" "2 * n \<le> 2 * F + Q"
    by (simp_all add: F_def float64_of_nat_def Q_def)
  from False have "2 ^ 52 * Q \<le> n"
    unfolding Q_def by (intro excess_bits_lower) simp
  then have q: "4503599627370496 * Q \<le> n"
    by simp
  from r q have "9007199254740992 * F \<le> 9007199254740992 * n + n \<and>
                 9007199254740992 * n \<le> 9007199254740992 * F + n"
    by linarith
  then show ?thesis
    by (simp add: F_def)
qed

text \<open>
  Below \<open>2^53\<close> bytes the number printed is the size in units of \<open>2^20\<close> bytes, to the
  nearest hundredth.
\<close>

lemma MB_hundredths_near:
  assumes "0 \<le> n" "n < 2 ^ 53"
  shows "\<bar>int (MB_hundredths (nat n)) * 2 ^ 20 - 100 * n\<bar> \<le> 2 ^ 19"
proof -
  have lt: "nat n < 2 ^ 53" using assms by (simp add: nat_less_iff)
  have c: "MB_hundredths (nat n) = round_half_even (nat n * 25) 262144"
    by (simp add: MB_hundredths_def float64_of_nat_exact [OF lt])
  define X where "X = int (MB_hundredths (nat n))"
  from round_half_even_near [of 262144 "nat n * 25"] c
  have "2 * (MB_hundredths (nat n) * 262144) \<le> 2 * (nat n * 25) + 262144"
       "2 * (nat n * 25) \<le> 2 * (MB_hundredths (nat n) * 262144) + 262144"
    by simp_all
  then have "2 * (int (MB_hundredths (nat n)) * 262144) \<le> 2 * (int (nat n) * 25) + 262144"
       "2 * (int (nat n) * 25) \<le> 2 * (int (MB_hundredths (nat n)) * 262144) + 262144"
    by linarith+
  then have "2 * (X * 262144) \<le> 2 * (n * 25) + 262144"
       "2 * (n * 25) \<le> 2 * (X * 262144) + 262144"
    using assms(1) by (simp_all add: X_def)
  then have "\<bar>X * 1048576 - 100 * n\<bar> \<le> 524288"
    by linarith
  then show ?thesis by (simp add: X_def)
qed

lemma handleFile_too_large_no_download:
  assumes att: "attachment m = Some (fileID, fileName, fileSize)"
      and big: "fileSize > 20 * 1024 * 1024"
  shows "GetFileDirectURL f \<notin> set (handleFile e s m) \<and>
         HttpGet u \<notin> set (handleFile e s m) \<and>
         DriveCreate a n p b \<notin> set (handleFile e s m)"
proof (cases e s m rule: handleFile_paths)
  case (lookup_failed err)
  then show ?thesis by (simp add: handleFile_lookup_failed)
next
  case (service_failed userToken)
  then show ?thesis by (simp add: handleFile_service_failed)
next
  case (too_large userToken fileID' fileName' fileSize')
  then show ?thesis by (simp add: handleFile_too_large)
qed (use att big in simp_all)

lemma sample_lookup:
  "fs_Get sample_env (user_tokens linked_store) (Sprintf_d 42) =
     Inr \<lparr>UserID = 42, RefreshToken = ''1//0g'', TokenType = ''Bearer'',
          Expiry = 1700003600, AccessToken = ''ya29.a0'', CreatedAt = 1700000000\<rparr>"
  by (simp add: fs_Get_def sample_env_def linked_store_def Sprintf_d_42)

lemma sample_client_token:
  "client_token \<lparr>UserID = 42, RefreshToken = ''1//0g'', TokenType = ''Bearer'',
          Expiry = 1700003600, AccessToken = ''ya29.a0'', CreatedAt = 1700000000\<rparr> =
   sample_token"
  by (simp add: client_token_def sample_token_def)

lemma Sprintf_2f_MB_21000000: "Sprintf_2f_MB 21000000 = ''20.03''"
  by (simp add: Sprintf_2f_MB_def MB_hundredths_def float64_of_nat_exact
        round_half_even_def decimal.simps Let_def)

text \<open>
  For every size the number printed is the size in units of \<open>2^20\<close> bytes, to half a
  hundredth and the \<open>2^53\<close>-th part of the size.
\<close>

lemma MB_hundredths_near_general:
  assumes "0 \<le> n"
  shows "2 ^ 53 * \<bar>int (MB_hundredths (nat n)) * 2 ^ 20 - 100 * n\<bar> \<le> 2 ^ 72 + 100 * n"
proof -
  define F where "F = float64_of_nat (nat n)"
  define c where "c = MB_hundredths (nat n)"
  have c: "c = round_half_even (F * 25) 262144"
    by (simp add: c_def F_def MB_hundredths_def)
  from round_half_even_near [of 262144 "F * 25"] c
  have "2 * (c * 262144) \<le> 2 * (F * 25) + 262144"
       "2 * (F * 25) \<le> 2 * (c * 262144) + 262144"
    by simp_all
  then have r: "2 * (int c * 262144) \<le> 2 * (int F * 25) + 262144"
       "2 * (int F * 25) \<le> 2 * (int c * 262144) + 262144"
    by linarith+
  from float64_of_nat_near [of "nat n"]
  have "9007199254740992 * F \<le> 9007199254740992 * nat n + nat n"
       "9007199254740992 * nat n \<le> 9007199254740992 * F + nat n"
    by (simp_all add: F_def)
  then have "9007199254740992 * int F \<le> 9007199254740992 * int (nat n) + int (nat n)"
       "9007199254740992 * int (nat n) \<le> 9007199254740992 * int F + int (nat n)"
    by linarith+
  with assms have f: "9007199254740992 * int F \<le> 9007199254740992 * n + n"
       "9007199254740992 * n \<le> 9007199254740992 * int F + n"
    by simp_all
  define X where "X = int c"
  define Y where "Y = int F"
  from r have a: "X * 1048576 - 100 * Y \<le> 524288" "100 * Y - X * 1048576 \<le> 524288"
    by (simp_all add: X_def Y_def)
  from f have g: "9007199254740992 * (100 * Y) \<le> 9007199254740992 * (100 * n) + 100 * n"
       "9007199254740992 * (100 * n) \<le> 9007199254740992 * (100 * Y) + 100 * n"
    by (simp_all add: Y_def)
  from a have h: "9007199254740992 * (X * 1048576) \<le>
         9007199254740992 * (100 * Y) + 4722366482869645213696"
       "9007199254740992 * (100 * Y) \<le>
         9007199254740992 * (X * 1048576) + 4722366482869645213696"
    by simp_all
  from g h have "9007199254740992 * (X * 1048576 - 100 * n) \<le> 4722366482869645213696 + 100 * n"
       "9007199254740992 * (100 * n - X * 1048576) \<le> 4722366482869645213696 + 100 * n"
    by (simp_all add: algebra_simps)
  then have "9007199254740992 * \<bar>X * 1048576 - 100 * n\<bar> \<le> 4722366482869645213696 + 100 * n"
    by (simp add: abs_if algebra_simps)
  then show ?thesis
    by (simp add: X_def c_def)
qed

text \<open>
  C3. A file whose declared size exceeds 20 MiB is rejected before any download. For
  every file event whose declared size is over \<open>20 * 1024 * 1024\<close> bytes, \<open>handleFile\<close>
  asks for no direct URL, issues no GET and makes no upload; and when the sender is
  linked (the credential lookup returns a record) and the Drive service is built, its
  calls are exactly the lookup, the construction of client and service, and one reply to
  the sender. The text of that reply carries a number with two decimals, and that number
  is the declared size in MiB: read as hundredths, it differs from the size divided by
  \<open>2^20\<close> by at most half a hundredth and the \<open>2^53\<close>-th part of the size, and by at
  most half a hundredth for sizes below \<open>2^53\<close> bytes.
\<close>

theorem size_guard_rejects:
  assumes att: "attachment m = Some (fileID, fileName, fileSize)"
      and big: "fileSize > 20 * 1024 * 1024"
  shows "(\<forall>f. GetFileDirectURL f \<notin> set (handleFile e s m)) \<and>
         (\<forall>u. HttpGet u \<notin> set (handleFile e s m)) \<and>
         (\<forall>a n p b. DriveCreate a n p b \<notin> set (handleFile e s m)) \<and>
         (\<forall>userToken.
            fs_Get e (user_tokens s) (Sprintf_d (FromID m)) = Inr userToken \<and>
            \<not> new_service_error e \<longrightarrow>
            (\<exists>printed hundredths.
               handleFile e s m =
                 [FsGet tokenCollection (Sprintf_d (FromID m)),
                  OAuthClient (client_token userToken), DriveNewService,
                  Reply (ChatID m) (MessageID m) (FileTooLarge printed)] \<and>
               read_2f printed = Some hundredths \<and>
               2 ^ 53 * \<bar>int hundredths * 2 ^ 20 - 100 * fileSize\<bar> \<le> 2 ^ 72 + 100 * fileSize \<and>
               (fileSize < 2 ^ 53 \<longrightarrow>
                  \<bar>int hundredths * 2 ^ 20 - 100 * fileSize\<bar> \<le> 2 ^ 19)))"
proof (intro conjI allI impI)
  fix userToken
  assume "fs_Get e (user_tokens s) (Sprintf_d (FromID m)) = Inr userToken \<and>
            \<not> new_service_error e"
  then have run: "handleFile e s m =
              [FsGet tokenCollection (Sprintf_d (FromID m)),
               OAuthClient (client_token userToken), DriveNewService,
               Reply (ChatID m) (MessageID m) (FileTooLarge (Sprintf_2f_MB (nat fileSize)))]"
    using handleFile_too_large [OF _ _ att big] by simp
  from big have pos: "0 \<le> fileSize" by simp
  have tight: "fileSize < 2 ^ 53 \<longrightarrow>
      \<bar>int (MB_hundredths (nat fileSize)) * 2 ^ 20 - 100 * fileSize\<bar> \<le> 2 ^ 19"
    using MB_hundredths_near [OF pos] by blast
  show "\<exists>printed hundredths.
               handleFile e s m =
                 [FsGet tokenCollection (Sprintf_d (FromID m)),
                  OAuthClient (client_token userToken), DriveNewService,
                  Reply (ChatID m) (MessageID m) (FileTooLarge printed)] \<and>
               read_2f printed = Some hundredths \<and>
               2 ^ 53 * \<bar>int hundredths * 2 ^ 20 - 100 * fileSize\<bar> \<le> 2 ^ 72 + 100 * fileSize \<and>
               (fileSize < 2 ^ 53 \<longrightarrow>
                  \<bar>int hundredths * 2 ^ 20 - 100 * fileSize\<bar> \<le> 2 ^ 19)"
    using run read_2f_Sprintf_2f_MB [of "nat fileSize"] MB_hundredths_near_general [OF pos] tight
    by blast
qed (use handleFile_too_large_no_download [OF att big] in simp_all)

text \<open>
  The spec's example: a document of 21000000 bytes from the linked user 42 is answered
  with the text \<open>20.03\<close>, which reads as 2003 hundredths, and nothing is fetched.
\<close>

theorem size_guard_rejects_witness:
  "attachment (document_message 21000000) = Some (''abc123'', ''report.pdf'', 21000000) \<and>
   (21000000 :: int) > 20 * 1024 * 1024 \<and>
   handleFile sample_env linked_store (document_message 21000000) =
     [FsGet ''user_tokens'' ''42'', OAuthClient sample_token, DriveNewService,
      Reply 100 3 (FileTooLarge ''20.03'')] \<and>
   read_2f ''20.03'' = Some 2003 \<and>
   \<bar>2003 * 2 ^ 20 - 100 * 21000000\<bar> \<le> (2 ^ 19 :: int) \<and>
   GetFileDirectURL ''abc123'' \<notin> set (handleFile sample_env linked_store (document_message 21000000))"
proof -
  have att: "attachment (document_message 21000000) = Some (''abc123'', ''report.pdf'', 21000000)"
    by (simp add: attachment_def document_message_def)
  have big: "(21000000 :: int) > 20 * 1024 * 1024" by simp
  have sender: "FromID (document_message 21000000) = 42"
    and chat: "ChatID (document_message 21000000) = 100"
    and mid: "MessageID (document_message 21000000) = 3"
    by (simp_all add: document_message_def)
  have ok: "\<not> new_service_error sample_env" by (simp add: sample_env_def)
  have look: "fs_Get sample_env (user_tokens linked_store)
                (Sprintf_d (FromID (document_message 21000000))) =
     Inr \<lparr>UserID = 42, RefreshToken = ''1//0g'', TokenType = ''Bearer'',
          Expiry = 1700003600, AccessToken = ''ya29.a0'', CreatedAt = 1700000000\<rparr>"
    by (simp add: sender sample_lookup)
  have run: "handleFile sample_env linked_store (document_message 21000000) =
     [FsGet ''user_tokens'' ''42'', OAuthClient sample_token, DriveNewService,
      Reply 100 3 (FileTooLarge ''20.03'')]"
    using handleFile_too_large [OF look ok att big]
    by (simp add: sender chat mid sample_client_token Sprintf_2f_MB_21000000 Sprintf_d_42
          tokenCollection_def)
  have rd: "read_2f ''20.03'' = Some 2003"
    by (simp add: read_2f_def digit_value_def Let_def)
  from size_guard_rejects [OF att big, of sample_env linked_store] look ok
  obtain printed hundredths where
    p: "handleFile sample_env linked_store (document_message 21000000) =
          [FsGet tokenCollection (Sprintf_d (FromID (document_message 21000000))),
           OAuthClient (client_token
             \<lparr>UserID = 42, RefreshToken = ''1//0g'', TokenType = ''Bearer'',
              Expiry = 1700003600, AccessToken = ''ya29.a0'', CreatedAt = 1700000000\<rparr>),
           DriveNewService,
           Reply (ChatID (document_message 21000000)) (MessageID (document_message 21000000))
             (FileTooLarge printed)]" and
    h: "read_2f printed = Some hundredths" and
    b: "\<bar>int hundredths * 2 ^ 20 - 100 * 21000000\<bar> \<le> 2 ^ 19" and
    no: "GetFileDirectURL ''abc123''
           \<notin> set (handleFile sample_env linked_store (document_message 21000000))"
    by auto
  from p run have "printed = ''20.03''" by simp
  with h rd have "hundredths = 2003" by simp
  with b have "\<bar>2003 * 2 ^ 20 - 100 * 21000000\<bar> \<le> (2 ^ 19 :: int)" by simp
  with att big run rd no show ?thesis by simp
qed

text \<open>
  C4. A sender without a stored credential is told so, and nothing else happens. When
  the credential lookup fails, \<open>handleFile\<close> makes exactly two calls: the lookup and one
  reply. The reply is the not-linked text when the error is not-found, which is the case
  exactly when the lookup itself worked and the collection has no record for the sender,
  and the transient-error text for every other failure. In both cases no OAuth client
  and no Drive service are built, no direct URL is asked for, nothing is downloaded and
  nothing is uploaded.
\<close>

theorem unlinked_sender_no_provider_call:
  assumes "fs_Get e (user_tokens s) (Sprintf_d (FromID m)) = Inl err"
  shows "handleFile e s m =
           [FsGet tokenCollection (Sprintf_d (FromID m)),
            Reply (ChatID m) (MessageID m) (if err = NotFound then NotLinked else LookupFailed)] \<and>
         (err = NotFound \<longleftrightarrow>
            \<not> fs_get_fault e \<and> user_tokens s (Sprintf_d (FromID m)) = None)"
  using assms
  by (auto simp: handleFile_lookup_failed fs_Get_def split: if_splits option.splits)

theorem unlinked_sender_no_provider_call_witness:
  "fs_Get sample_env (user_tokens empty_store) (Sprintf_d (FromID photo_message)) = Inl NotFound \<and>
   handleFile sample_env empty_store photo_message =
     [FsGet ''user_tokens'' ''42'', Reply 100 4 NotLinked] \<and>
   fs_Get (sample_env\<lparr>fs_get_fault := True\<rparr>) (user_tokens linked_store)
     (Sprintf_d (FromID photo_message)) = Inl Unavailable \<and>
   handleFile (sample_env\<lparr>fs_get_fault := True\<rparr>) linked_store photo_message =
     [FsGet ''user_tokens'' ''42'', Reply 100 4 LookupFailed]"
proof -
  have a: "fs_Get sample_env (user_tokens empty_store) (Sprintf_d (FromID photo_message)) =
             Inl NotFound"
    by (simp add: fs_Get_def sample_env_def empty_store_def)
  have b: "fs_Get (sample_env\<lparr>fs_get_fault := True\<rparr>) (user_tokens linked_store)
             (Sprintf_d (FromID photo_message)) = Inl Unavailable"
    by (simp add: fs_Get_def)
  show ?thesis
    using unlinked_sender_no_provider_call [OF a] unlinked_sender_no_provider_call [OF b] a b
    by (simp add: photo_message_def Sprintf_d_42 tokenCollection_def)
qed

section \<open>The download step\<close>

lemma handleFile_service_account_download:
  assumes "attachment m = Some (fileID, fileName, fileSize)"
      and "direct_url e fileID = Some fileURL"
  shows "http_get e fileURL = None \<Longrightarrow>
           handleFile_service_account e folder m =
             [GetFileDirectURL fileID, HttpGet fileURL,
              Reply (ChatID m) (MessageID m) CannotDownloadFile]"
    and "http_get e fileURL = Some resp \<Longrightarrow> StatusCode resp \<noteq> 200 \<Longrightarrow>
           handleFile_service_account e folder m =
             [GetFileDirectURL fileID, HttpGet fileURL,
              Reply (ChatID m) (MessageID m) DownloadStatusError, BodyClose]"
    and "http_get e fileURL = Some resp \<Longrightarrow> StatusCode resp = 200 \<Longrightarrow>
           handleFile_service_account e folder m =
             [GetFileDirectURL fileID, HttpGet fileURL,
              DriveCreate ServiceAccount fileName [folder] (Body resp),
              Reply (ChatID m) (MessageID m)
                (if drive_create e ServiceAccount fileName (Body resp)
                 then Uploaded fileName else UploadFailed),
              BodyClose]"
  using assms by (simp_all add: handleFile_service_account_def replyToUser_def)

text \<open>
  In the service-account version a transport failure and a status other than 200 both
  end the relay with a reply and without an upload, and the body of every response is
  closed last.
\<close>

lemma handleFile_service_account_download_failure:
  assumes "attachment m = Some (fileID, fileName, fileSize)"
      and "direct_url e fileID = Some fileURL"
      and "http_get e fileURL = None \<or>
           (\<exists>resp. http_get e fileURL = Some resp \<and> StatusCode resp \<noteq> 200)"
  shows "(\<exists>t. Reply (ChatID m) (MessageID m) t \<in> set (handleFile_service_account e folder m)) \<and>
         (\<forall>a n p b. DriveCreate a n p b \<notin> set (handleFile_service_account e folder m)) \<and>
         (http_get e fileURL \<noteq> None \<longrightarrow>
            last (handleFile_service_account e folder m) = BodyClose)"
proof (cases "http_get e fileURL")
  case None
  then show ?thesis
    by (simp add: handleFile_service_account_download(1) [OF assms(1,2)])
next
  case (Some resp)
  with assms(3) have "StatusCode resp \<noteq> 200" by auto
  with Some show ?thesis
    by (simp add: handleFile_service_account_download(2) [OF assms(1,2)])
qed

text \<open>
  In the OAuth version a transport failure ends the relay with a reply and without an
  upload, and the body of every response is closed last.
\<close>

lemma handleFile_transport_failure:
  assumes "fs_Get e (user_tokens s) (Sprintf_d (FromID m)) = Inr userToken"
      and "\<not> new_service_error e"
      and "attachment m = Some (fileID, fileName, fileSize)"
      and "fileSize \<le> 20 * 1024 * 1024"
      and "direct_url e fileID = Some fileURL"
      and "http_get e fileURL = None"
  shows "last (handleFile e s m) = Reply (ChatID m) (MessageID m) CannotDownloadFile \<and>
         (\<forall>a n p b. DriveCreate a n p b \<notin> set (handleFile e s m))"
  by (simp add: handleFile_no_response [OF assms])

lemma handleFile_body_released:
  assumes "HttpGet fileURL \<in> set (handleFile e s m)" and "http_get e fileURL \<noteq> None"
  shows "last (handleFile e s m) = BodyClose"
proof (cases e s m rule: handleFile_paths)
  case (no_response userToken fileID fileName fileSize fileURL')
  with assms show ?thesis by (simp add: handleFile_no_response)
next
  case (response userToken fileID fileName fileSize fileURL' resp)
  then show ?thesis by (simp add: handleFile_response)
qed (use assms in \<open>simp_all add: handleFile_lookup_failed handleFile_service_failed
       handleFile_no_attachment handleFile_too_large handleFile_no_url\<close>)

text \<open>
  The OAuth version never reads the status code: with any status in place of the one
  received, it makes the same calls.
\<close>

lemma handleFile_ignores_status:
  "handleFile (e\<lparr>http_get := \<lambda>u. map_option (\<lambda>r. r\<lparr>StatusCode := c\<rparr>) (http_get e u)\<rparr>) s m =
   handleFile e s m"
  by (simp add: handleFile_def fs_Get_def Let_def
           split: sum.splits option.splits prod.splits)

text \<open>
  C5. A failed download ends the relay without an upload. The service-account version
  of \<open>handleFile\<close> does this for a transport failure and for a status other than 200
  (\<open>handleFile_service_account_download_failure\<close>), and both versions close the body of
  every response. The OAuth version does it for a transport failure only
  (\<open>handleFile_transport_failure\<close>): it does not look at the status. Here the download
  of the linked user's document is answered 404 with the body \<open>Not Found\<close>; the relay
  uploads that body under the document's name and reports success.
\<close>

theorem handleFile_uploads_error_response:
  "handleFile
     (sample_env\<lparr>http_get := \<lambda>url. Some \<lparr>StatusCode = 404, Body = ''Not Found''\<rparr>\<rparr>)
     linked_store (document_message 500000) =
   [FsGet ''user_tokens'' ''42'', OAuthClient sample_token, DriveNewService,
    GetFileDirectURL ''abc123'', HttpGet ''https://api.telegram.org/file/abc123'',
    DriveCreate (UserClient sample_token) ''report.pdf'' [] ''Not Found'',
    Reply 100 3 (Uploaded ''report.pdf''), BodyClose]"
proof -
  let ?e = "sample_env\<lparr>http_get := \<lambda>url. Some \<lparr>StatusCode = 404, Body = ''Not Found''\<rparr>\<rparr>"
  have "fs_Get ?e (user_tokens linked_store) (Sprintf_d (FromID (document_message 500000))) =
     Inr \<lparr>UserID = 42, RefreshToken = ''1//0g'', TokenType = ''Bearer'',
          Expiry = 1700003600, AccessToken = ''ya29.a0'', CreatedAt = 1700000000\<rparr>"
    by (simp add: fs_Get_def sample_env_def linked_store_def document_message_def Sprintf_d_42)
  moreover have "\<not> new_service_error ?e"
    by (simp add: sample_env_def)
  moreover have "attachment (document_message 500000) = Some (''abc123'', ''report.pdf'', 500000)"
    by (simp add: attachment_def document_message_def)
  moreover have "(500000 :: int) \<le> 20 * 1024 * 1024"
    by simp
  moreover have "direct_url ?e ''abc123'' = Some ''https://api.telegram.org/file/abc123''"
    by (simp add: sample_env_def)
  moreover have "http_get ?e ''https://api.telegram.org/file/abc123'' =
      Some \<lparr>StatusCode = 404, Body = ''Not Found''\<rparr>"
    by simp
  ultimately have "handleFile ?e linked_store (document_message 500000) =
     [FsGet tokenCollection (Sprintf_d (FromID (document_message 500000))),
      OAuthClient sample_token, DriveNewService, GetFileDirectURL ''abc123'',
      HttpGet ''https://api.telegram.org/file/abc123'',
      DriveCreate (UserClient sample_token) ''report.pdf'' [] ''Not Found'',
      Reply (ChatID (document_message 500000)) (MessageID (document_message 500000))
        (if drive_create ?e (UserClient sample_token) ''report.pdf'' ''Not Found''
         then Uploaded ''report.pdf'' else UploadFailed),
      BodyClose]"
    using handleFile_response [of ?e linked_store "document_message 500000"]
    by (simp add: sample_client_token)
  then show ?thesis
    by (simp add: document_message_def Sprintf_d_42 tokenCollection_def sample_env_def)
qed

section \<open>Classification of the attachment\<close>

lemma attachment_document:
  "Document m = Some d \<Longrightarrow> attachment m = Some (FileID d, FileName d, FileSize d)"
  by (simp add: attachment_def)

lemma attachment_photo:
  "Document m = None \<Longrightarrow> Photo m \<noteq> [] \<Longrightarrow>
   attachment m =
     Some (pFileID (last (Photo m)), pFileID (last (Photo m)) @ ''.jpg'',
           pFileSize (last (Photo m)))"
  by (simp add: attachment_def Let_def last_conv_nth)

lemma attachment_other:
  "Document m = None \<Longrightarrow> Photo m = [] \<Longrightarrow> attachment m = None"
  by (simp add: attachment_def)

text \<open>What is fetched and what is uploaded are the classified file id and name.\<close>

lemma handleFile_uses_attachment:
  assumes att: "attachment m = Some (fileID, fileName, fileSize)"
  shows "(GetFileDirectURL f \<in> set (handleFile e s m) \<longrightarrow> f = fileID) \<and>
         (DriveCreate a n p b \<in> set (handleFile e s m) \<longrightarrow> n = fileName)"
proof (cases e s m rule: handleFile_paths)
  case (lookup_failed err)
  then show ?thesis by (simp add: handleFile_lookup_failed)
next
  case (service_failed userToken)
  then show ?thesis by (simp add: handleFile_service_failed)
next
  case (no_attachment userToken)
  then show ?thesis by (simp add: handleFile_no_attachment)
next
  case (too_large userToken fileID' fileName' fileSize')
  then show ?thesis by (simp add: handleFile_too_large)
next
  case (no_url userToken fileID' fileName' fileSize')
  with att show ?thesis by (simp add: handleFile_no_url)
next
  case (no_response userToken fileID' fileName' fileSize' fileURL)
  with att show ?thesis by (simp add: handleFile_no_response)
next
  case (response userToken fileID' fileName' fileSize' fileURL resp)
  with att show ?thesis by (simp add: handleFile_response)
qed

lemma handleFile_other_shape_no_transfer:
  assumes "attachment m = None"
  shows "GetFileDirectURL f \<notin> set (handleFile e s m) \<and>
         HttpGet u \<notin> set (handleFile e s m) \<and>
         DriveCreate a n p b \<notin> set (handleFile e s m)"
proof (cases e s m rule: handleFile_paths)
  case (lookup_failed err)
  then show ?thesis by (simp add: handleFile_lookup_failed)
next
  case (service_failed userToken)
  then show ?thesis by (simp add: handleFile_service_failed)
next
  case (no_attachment userToken)
  then show ?thesis by (simp add: handleFile_no_attachment)
qed (use assms in simp_all)

lemma sample_photo_upload:
  "handleFile sample_env linked_store photo_message =
     [FsGet ''user_tokens'' ''42'', OAuthClient sample_token, DriveNewService,
      GetFileDirectURL ''photoXL'', HttpGet ''https://api.telegram.org/file/photoXL'',
      DriveCreate (UserClient sample_token) ''photoXL.jpg'' [] ''%PDF'',
      Reply 100 4 (Uploaded ''photoXL.jpg''), BodyClose]"
proof -
  have "fs_Get sample_env (user_tokens linked_store) (Sprintf_d (FromID photo_message)) =
     Inr \<lparr>UserID = 42, RefreshToken = ''1//0g'', TokenType = ''Bearer'',
          Expiry = 1700003600, AccessToken = ''ya29.a0'', CreatedAt = 1700000000\<rparr>"
    by (simp add: sample_lookup photo_message_def)
  moreover have "\<not> new_service_error sample_env"
    by (simp add: sample_env_def)
  moreover have "attachment photo_message = Some (''photoXL'', ''photoXL.jpg'', 98000)"
    by (simp add: attachment_def photo_message_def)
  moreover have "(98000 :: int) \<le> 20 * 1024 * 1024"
    by simp
  moreover have "direct_url sample_env ''photoXL'' = Some ''https://api.telegram.org/file/photoXL''"
    by (simp add: sample_env_def)
  moreover have "http_get sample_env ''https://api.telegram.org/file/photoXL'' =
      Some \<lparr>StatusCode = 200, Body = ''%PDF''\<rparr>"
    by (simp add: sample_env_def)
  ultimately have "handleFile sample_env linked_store photo_message =
     [FsGet tokenCollection (Sprintf_d (FromID photo_message)),
      OAuthClient sample_token, DriveNewService, GetFileDirectURL ''photoXL'',
      HttpGet ''https://api.telegram.org/file/photoXL'',
      DriveCreate (UserClient sample_token) ''photoXL.jpg'' [] ''%PDF'',
      Reply (ChatID photo_message) (MessageID photo_message)
        (if drive_create sample_env (UserClient sample_token) ''photoXL.jpg'' ''%PDF''
         then Uploaded ''photoXL.jpg'' else UploadFailed),
      BodyClose]"
    using handleFile_response [of sample_env linked_store photo_message]
    by (simp add: sample_client_token)
  then show ?thesis
    by (simp add: photo_message_def Sprintf_d_42 tokenCollection_def sample_env_def)
qed

text \<open>
  C6. Classification of the attachment. A message with a document is relayed under the
  document's file id and its explicit file name. A message without a document and with
  a non-empty list of photo variants is relayed under the last variant's file id, named
  by that id followed by \<open>.jpg\<close>. In both cases the only direct URL asked for is the
  one of the classified file id and the only upload is under the classified name. A
  message of any other shape is classified as nothing: no direct URL, no GET and no upload
  happen for it, the service-account relay makes no call at all, and the OAuth relay,
  once it has found the credential and built the service, stops without a reply.
\<close>

theorem attachment_classification:
  "(\<forall>d. Document m = Some d \<longrightarrow>
      attachment m = Some (FileID d, FileName d, FileSize d)) \<and>
   (Document m = None \<and> Photo m \<noteq> [] \<longrightarrow>
      attachment m =
        Some (pFileID (last (Photo m)), pFileID (last (Photo m)) @ ''.jpg'',
              pFileSize (last (Photo m)))) \<and>
   (\<forall>fileID fileName fileSize. attachment m = Some (fileID, fileName, fileSize) \<longrightarrow>
      (\<forall>f. GetFileDirectURL f \<in> set (handleFile e s m) \<longrightarrow> f = fileID) \<and>
      (\<forall>a n p b. DriveCreate a n p b \<in> set (handleFile e s m) \<longrightarrow> n = fileName)) \<and>
   (Document m = None \<and> Photo m = [] \<longrightarrow>
      attachment m = None \<and>
      handleFile_service_account e folder m = [] \<and>
      (\<forall>f. GetFileDirectURL f \<notin> set (handleFile e s m)) \<and>
      (\<forall>u. HttpGet u \<notin> set (handleFile e s m)) \<and>
      (\<forall>a n p b. DriveCreate a n p b \<notin> set (handleFile e s m)) \<and>
      (\<forall>userToken.
         fs_Get e (user_tokens s) (Sprintf_d (FromID m)) = Inr userToken \<and>
         \<not> new_service_error e \<longrightarrow>
         handleFile e s m =
           [FsGet tokenCollection (Sprintf_d (FromID m)),
            OAuthClient (client_token userToken), DriveNewService]))"
proof (intro conjI allI impI)
  assume other: "Document m = None \<and> Photo m = []"
  then show none: "attachment m = None"
    by (simp add: attachment_other)
  then show "handleFile_service_account e folder m = []"
    by (simp add: handleFile_service_account_def)
  show "\<And>f. GetFileDirectURL f \<notin> set (handleFile e s m)"
    and "\<And>u. HttpGet u \<notin> set (handleFile e s m)"
    and "\<And>a n p b. DriveCreate a n p b \<notin> set (handleFile e s m)"
    using handleFile_other_shape_no_transfer [OF none] by simp_all
  show "handleFile e s m =
           [FsGet tokenCollection (Sprintf_d (FromID m)),
            OAuthClient (client_token userToken), DriveNewService]"
    if "fs_Get e (user_tokens s) (Sprintf_d (FromID m)) = Inr userToken \<and>
         \<not> new_service_error e" for userToken
    using that none by (simp add: handleFile_no_attachment)
qed (use handleFile_uses_attachment in \<open>auto simp: attachment_document attachment_photo\<close>)

text \<open>
  The spec's scenario: the photo whose largest variant is \<open>photoXL\<close> is uploaded as
  \<open>photoXL.jpg\<close>; a document keeps its name; a text-only message is not classified
  and, for the linked sender, the relay stops after building the client.
\<close>

theorem attachment_classification_witness:
  "Document photo_message = None \<and> Photo photo_message \<noteq> [] \<and>
   attachment photo_message = Some (''photoXL'', ''photoXL.jpg'', 98000) \<and>
   DriveCreate (UserClient sample_token) ''photoXL.jpg'' [] ''%PDF''
     \<in> set (handleFile sample_env linked_store photo_message) \<and>
   attachment (document_message 500000) = Some (''abc123'', ''report.pdf'', 500000) \<and>
   Document text_message = None \<and> Photo text_message = [] \<and>
   attachment text_message = None \<and>
   handleFile sample_env linked_store text_message =
     [FsGet ''user_tokens'' ''42'', OAuthClient sample_token, DriveNewService]"
proof -
  have p: "Document photo_message = None \<and> Photo photo_message \<noteq> []"
    and d: "Document (document_message 500000) =
              Some \<lparr>FileID = ''abc123'', FileName = ''report.pdf'', FileSize = 500000\<rparr>"
    and t: "Document text_message = None \<and> Photo text_message = []"
    by (simp_all add: photo_message_def document_message_def text_message_def)
  have look: "fs_Get sample_env (user_tokens linked_store) (Sprintf_d (FromID text_message)) =
     Inr \<lparr>UserID = 42, RefreshToken = ''1//0g'', TokenType = ''Bearer'',
          Expiry = 1700003600, AccessToken = ''ya29.a0'', CreatedAt = 1700000000\<rparr>"
    by (simp add: sample_lookup text_message_def)
  have ok: "\<not> new_service_error sample_env"
    by (simp add: sample_env_def)
  from attachment_classification [of photo_message sample_env linked_store] p
  have a: "attachment photo_message = Some (''photoXL'', ''photoXL.jpg'', 98000)"
    by (simp add: photo_message_def)
  from attachment_classification [of "document_message 500000" sample_env linked_store] d
  have b: "attachment (document_message 500000) = Some (''abc123'', ''report.pdf'', 500000)"
    by simp
  from attachment_classification [of text_message sample_env linked_store] t look ok
  have c: "attachment text_message = None \<and>
           handleFile sample_env linked_store text_message =
             [FsGet ''user_tokens'' ''42'', OAuthClient sample_token, DriveNewService]"
    by (simp add: sample_client_token text_message_def Sprintf_d_42 tokenCollection_def)
  from a b c p t show ?thesis
    by (simp add: sample_photo_upload)
qed

section \<open>From the callback to the relay\<close>

lemma client_token_of_exchange:
  "client_token
     \<lparr>UserID = u, RefreshToken = tRefreshToken token, TokenType = tTokenType token,
      Expiry = tExpiry token, AccessToken = tAccessToken token, CreatedAt = c\<rparr> = token"
  by (simp add: client_token_def)

lemma callback_success:
  assumes "oauthCallbackHandler e s state code = ((200, pg), s1, evs)"
  obtains doc token where
    "oauth_states s state = Some doc" "exchange e code = Some token"
    "user_tokens s1 (Sprintf_d (sd_user_id doc)) =
       Some \<lparr>UserID = sd_user_id doc, RefreshToken = tRefreshToken token,
             TokenType = tTokenType token, Expiry = tExpiry token,
             AccessToken = tAccessToken token, CreatedAt = now e\<rparr>"
  using assms
  by (auto simp: oauthCallbackHandler_def deferred_Delete_def fs_Get_def fs_Set_def Let_def
           split: option.splits sum.splits if_splits)

text \<open>Every client that \<open>handleFile\<close> builds is built from the record it has read.\<close>

lemma handleFile_client:
  assumes "user_tokens s (Sprintf_d (FromID m)) = Some userToken"
  shows "(OAuthClient tok \<in> set (handleFile e s m) \<longrightarrow> tok = client_token userToken) \<and>
         (DriveCreate (UserClient tok) n p b \<in> set (handleFile e s m) \<longrightarrow>
            tok = client_token userToken) \<and>
         (\<not> fs_get_fault e \<longrightarrow> OAuthClient (client_token userToken) \<in> set (handleFile e s m))"
proof (cases e s m rule: handleFile_paths)
  case (lookup_failed err)
  with assms show ?thesis
    by (auto simp: handleFile_lookup_failed fs_Get_def split: if_splits)
next
  case (service_failed ut)
  with assms show ?thesis
    by (auto simp: handleFile_service_failed fs_Get_def split: if_splits)
next
  case (no_attachment ut)
  with assms show ?thesis
    by (auto simp: handleFile_no_attachment fs_Get_def split: if_splits)
next
  case (too_large ut fileID fileName fileSize)
  with assms show ?thesis
    by (auto simp: handleFile_too_large fs_Get_def split: if_splits)
next
  case (no_url ut fileID fileName fileSize)
  with assms show ?thesis
    by (auto simp: handleFile_no_url fs_Get_def split: if_splits)
next
  case (no_response ut fileID fileName fileSize fileURL)
  with assms show ?thesis
    by (auto simp: handleFile_no_response fs_Get_def split: if_splits)
next
  case (response ut fileID fileName fileSize fileURL resp)
  with assms show ?thesis
    by (auto simp: handleFile_response fs_Get_def split: if_splits)
qed

text \<open>
  C7. Round trip of the credential bundle. When the callback is answered 200, the state
  was known, the exchange returned a token, and the record stored for the state's
  owning user holds exactly that token's access token, refresh token, token type and
  expiry. For every later file event of that user, on every store that still holds this
  record for the user, every OAuth client the relay builds, and every upload it makes,
  is bound to a token with exactly those four fields, and the relay does build that
  client whenever the lookup itself works.
\<close>

theorem credential_round_trip:
  assumes run: "oauthCallbackHandler e1 s state code = ((200, pg), s1, evs1)"
  shows "\<exists>doc token.
           oauth_states s state = Some doc \<and> exchange e1 code = Some token \<and>
           user_tokens s1 (Sprintf_d (sd_user_id doc)) =
             Some \<lparr>UserID = sd_user_id doc, RefreshToken = tRefreshToken token,
                   TokenType = tTokenType token, Expiry = tExpiry token,
                   AccessToken = tAccessToken token, CreatedAt = now e1\<rparr> \<and>
           (\<forall>e2 s2 m.
              FromID m = sd_user_id doc \<and>
              user_tokens s2 (Sprintf_d (sd_user_id doc)) =
                user_tokens s1 (Sprintf_d (sd_user_id doc)) \<longrightarrow>
              (\<forall>tok. OAuthClient tok \<in> set (handleFile e2 s2 m) \<longrightarrow> tok = token) \<and>
              (\<forall>tok n p b. DriveCreate (UserClient tok) n p b \<in> set (handleFile e2 s2 m) \<longrightarrow>
                 tok = token) \<and>
              (\<not> fs_get_fault e2 \<longrightarrow> OAuthClient token \<in> set (handleFile e2 s2 m)))"
proof -
  from run obtain doc token where
    doc: "oauth_states s state = Some doc" and tok: "exchange e1 code = Some token" and
    rec: "user_tokens s1 (Sprintf_d (sd_user_id doc)) =
       Some \<lparr>UserID = sd_user_id doc, RefreshToken = tRefreshToken token,
             TokenType = tTokenType token, Expiry = tExpiry token,
             AccessToken = tAccessToken token, CreatedAt = now e1\<rparr>"
    by (rule callback_success)
  have "(\<forall>tok. OAuthClient tok \<in> set (handleFile e2 s2 m) \<longrightarrow> tok = token) \<and>
        (\<forall>tok n p b. DriveCreate (UserClient tok) n p b \<in> set (handleFile e2 s2 m) \<longrightarrow>
           tok = token) \<and>
        (\<not> fs_get_fault e2 \<longrightarrow> OAuthClient token \<in> set (handleFile e2 s2 m))"
    if "FromID m = sd_user_id doc \<and>
        user_tokens s2 (Sprintf_d (sd_user_id doc)) = user_tokens s1 (Sprintf_d (sd_user_id doc))"
    for e2 s2 m
  proof -
    from that rec have "user_tokens s2 (Sprintf_d (FromID m)) =
       Some \<lparr>UserID = sd_user_id doc, RefreshToken = tRefreshToken token,
             TokenType = tTokenType token, Expiry = tExpiry token,
             AccessToken = tAccessToken token, CreatedAt = now e1\<rparr>"
      by simp
    from handleFile_client [OF this] show ?thesis
      by (simp add: client_token_of_exchange)
  qed
  with doc tok rec show ?thesis by blast
qed

text \<open>
  User 42 follows the link; the record written is the exchanged token, and the relay of
  the user's next document builds its client from it.
\<close>

theorem credential_round_trip_witness:
  "oauthCallbackHandler sample_env pending_store ''st-42'' ''4/0A'' =
     ((200, AuthorizationSucceeded), linked_store,
      [FsGet ''oauth_states'' ''st-42'', Exchange ''4/0A'', FsSet ''user_tokens'' ''42'',
       FsDelete ''oauth_states'' ''st-42'']) \<and>
   exchange sample_env ''4/0A'' = Some sample_token \<and>
   user_tokens linked_store ''42'' =
     Some \<lparr>UserID = 42, RefreshToken = tRefreshToken sample_token,
           TokenType = tTokenType sample_token, Expiry = tExpiry sample_token,
           AccessToken = tAccessToken sample_token, CreatedAt = now sample_env\<rparr> \<and>
   OAuthClient sample_token \<in> set (handleFile sample_env linked_store (document_message 500000))"
proof -
  from credential_round_trip [OF sample_success] obtain doc token where
    doc: "oauth_states pending_store ''st-42'' = Some doc" and
    tok: "exchange sample_env ''4/0A'' = Some token" and
    rec: "user_tokens linked_store (Sprintf_d (sd_user_id doc)) =
       Some \<lparr>UserID = sd_user_id doc, RefreshToken = tRefreshToken token,
             TokenType = tTokenType token, Expiry = tExpiry token,
             AccessToken = tAccessToken token, CreatedAt = now sample_env\<rparr>" and
    use: "\<And>e2 s2 m. FromID m = sd_user_id doc \<Longrightarrow>
            user_tokens s2 (Sprintf_d (sd_user_id doc)) =
              user_tokens linked_store (Sprintf_d (sd_user_id doc)) \<Longrightarrow>
            \<not> fs_get_fault e2 \<Longrightarrow> OAuthClient token \<in> set (handleFile e2 s2 m)"
    by blast
  from doc have u: "sd_user_id doc = 42"
    by (auto simp: pending_store_def)
  from tok have t: "token = sample_token"
    by (simp add: sample_env_def)
  have "OAuthClient sample_token \<in> set (handleFile sample_env linked_store (document_message 500000))"
    using use [of "document_message 500000" linked_store sample_env]
    by (simp add: u t document_message_def sample_env_def)
  with rec tok show ?thesis
    by (simp add: sample_success u t Sprintf_d_42)
qed

section \<open>The webhook\<close>

text \<open>
  The chat of a message reaches the handlers' calls only as the chat of their replies:
  run on another chat, they make the same calls and send the same replies there.
\<close>

lemma handleFile_chat:
  "handleFile e s (m\<lparr>ChatID := chatID\<rparr>) = map (to_chat chatID) (handleFile e s m)"
proof -
  have att: "attachment (m\<lparr>ChatID := chatID\<rparr>) = attachment m"
    by (simp add: attachment_def Let_def split: option.splits)
  show ?thesis
  proof (cases e s m rule: handleFile_paths)
    case (lookup_failed err)
    then show ?thesis
      using handleFile_lookup_failed [of e s "m\<lparr>ChatID := chatID\<rparr>" err]
      by (simp add: handleFile_lookup_failed)
  next
    case (service_failed userToken)
    then show ?thesis
      using handleFile_service_failed [of e s "m\<lparr>ChatID := chatID\<rparr>" userToken]
      by (simp add: handleFile_service_failed)
  next
    case (no_attachment userToken)
    then show ?thesis
      using handleFile_no_attachment [of e s "m\<lparr>ChatID := chatID\<rparr>" userToken] att
      by (simp add: handleFile_no_attachment)
  next
    case (too_large userToken fileID fileName fileSize)
    then show ?thesis
      using handleFile_too_large [of e s "m\<lparr>ChatID := chatID\<rparr>" userToken fileID fileName fileSize]
        att
      by (simp add: handleFile_too_large)
  next
    case (no_url userToken fileID fileName fileSize)
    then show ?thesis
      using handleFile_no_url [of e s "m\<lparr>ChatID := chatID\<rparr>" userToken fileID fileName fileSize]
        att
      by (simp add: handleFile_no_url)
  next
    case (no_response userToken fileID fileName fileSize fileURL)
    then show ?thesis
      using handleFile_no_response
        [of e s "m\<lparr>ChatID := chatID\<rparr>" userToken fileID fileName fileSize fileURL] att
      by (simp add: handleFile_no_response)
  next
    case (response userToken fileID fileName fileSize fileURL resp)
    then show ?thesis
      using handleFile_response
        [of e s "m\<lparr>ChatID := chatID\<rparr>" userToken fileID fileName fileSize fileURL resp] att
      by (simp add: handleFile_response)
  qed
qed

lemma handleConnectDrive_chat:
  "handleConnectDrive e s (m\<lparr>ChatID := chatID\<rparr>) =
     map_option (\<lambda>(s', evs). (s', map (to_chat chatID) evs)) (handleConnectDrive e s m)"
  by (simp add: handleConnectDrive_def fs_Set_def replyToUser_def stateCollection_def Let_def
           split: option.splits)










section \<open>Sizes that pass the guard\<close>

text \<open>
  C10. The size guard is a strict comparison on the declared size. For every file event
  whose declared size is at most \<open>20 * 1024 * 1024\<close>, in particular a size of 0 (also
  what an absent size decodes to) and a size of exactly \<open>20 * 1024 * 1024\<close>, the relay
  of a linked sender, once the Drive service is built, sends no size rejection and goes
  on to ask for the direct URL of the file; when the URL is resolved it issues the GET
  on it, and when the GET returns a response it uploads the body received, whatever its
  length.
\<close>

theorem size_guard_passes:
  assumes look: "fs_Get e (user_tokens s) (Sprintf_d (FromID m)) = Inr userToken"
      and serv: "\<not> new_service_error e"
      and att: "attachment m = Some (fileID, fileName, fileSize)"
      and le: "fileSize \<le> 20 * 1024 * 1024"
  shows "(\<forall>c i t. Reply c i (FileTooLarge t) \<notin> set (handleFile e s m)) \<and>
         GetFileDirectURL fileID \<in> set (handleFile e s m) \<and>
         (\<forall>fileURL. direct_url e fileID = Some fileURL \<longrightarrow>
            HttpGet fileURL \<in> set (handleFile e s m) \<and>
            (\<forall>resp. http_get e fileURL = Some resp \<longrightarrow>
               DriveCreate (UserClient (client_token userToken)) fileName [] (Body resp)
                 \<in> set (handleFile e s m)))"
proof (cases "direct_url e fileID")
  case None
  from handleFile_no_url [OF look serv att le None] None show ?thesis by simp
next
  case url: (Some fileURL)
  show ?thesis
  proof (cases "http_get e fileURL")
    case None
    from handleFile_no_response [OF look serv att le url None] url None
    show ?thesis by simp
  next
    case (Some resp)
    from handleFile_response [OF look serv att le url Some] url Some
    show ?thesis by simp
  qed
qed

text \<open>
  Documents declared with 0 bytes and with exactly 20 MiB are fetched and uploaded.
\<close>

theorem size_guard_passes_witness:
  "attachment (document_message 0) = Some (''abc123'', ''report.pdf'', 0) \<and>
   GetFileDirectURL ''abc123'' \<in> set (handleFile sample_env linked_store (document_message 0)) \<and>
   HttpGet ''https://api.telegram.org/file/abc123''
     \<in> set (handleFile sample_env linked_store (document_message 0)) \<and>
   attachment (document_message 20971520) = Some (''abc123'', ''report.pdf'', 20 * 1024 * 1024) \<and>
   GetFileDirectURL ''abc123''
     \<in> set (handleFile sample_env linked_store (document_message 20971520)) \<and>
   HttpGet ''https://api.telegram.org/file/abc123''
     \<in> set (handleFile sample_env linked_store (document_message 20971520)) \<and>
   DriveCreate (UserClient sample_token) ''report.pdf'' [] ''%PDF''
     \<in> set (handleFile sample_env linked_store (document_message 20971520))"
proof -
  have look: "\<And>n. fs_Get sample_env (user_tokens linked_store)
                 (Sprintf_d (FromID (document_message n))) =
     Inr \<lparr>UserID = 42, RefreshToken = ''1//0g'', TokenType = ''Bearer'',
          Expiry = 1700003600, AccessToken = ''ya29.a0'', CreatedAt = 1700000000\<rparr>"
    by (simp add: sample_lookup document_message_def)
  have serv: "\<not> new_service_error sample_env"
    and url: "direct_url sample_env ''abc123'' = Some ''https://api.telegram.org/file/abc123''"
    and get: "http_get sample_env ''https://api.telegram.org/file/abc123'' =
                Some \<lparr>StatusCode = 200, Body = ''%PDF''\<rparr>"
    by (simp_all add: sample_env_def)
  have att0: "attachment (document_message 0) = Some (''abc123'', ''report.pdf'', 0)"
    and att1: "attachment (document_message 20971520) =
                 Some (''abc123'', ''report.pdf'', 20 * 1024 * 1024)"
    by (simp_all add: attachment_def document_message_def)
  from size_guard_passes [OF look serv att0] url
  have a: "GetFileDirectURL ''abc123'' \<in> set (handleFile sample_env linked_store (document_message 0)) \<and>
           HttpGet ''https://api.telegram.org/file/abc123''
             \<in> set (handleFile sample_env linked_store (document_message 0))"
    by simp
  from size_guard_passes [OF look serv att1] url get
  have b: "GetFileDirectURL ''abc123''
             \<in> set (handleFile sample_env linked_store (document_message 20971520)) \<and>
           HttpGet ''https://api.telegram.org/file/abc123''
             \<in> set (handleFile sample_env linked_store (document_message 20971520)) \<and>
           DriveCreate (UserClient sample_token) ''report.pdf'' [] ''%PDF''
             \<in> set (handleFile sample_env linked_store (document_message 20971520))"
    by (simp add: sample_client_token)
  from a b att0 att1 show ?thesis by simp
qed

section \<open>The state token\<close>

lemma encodeURL_length: "length encodeURL = 64"
  by (simp add: encodeURL_def)

lemma encodeURL_distinct: "distinct encodeURL"
  by (simp add: encodeURL_def)

lemma encodeURL_inj:
  "i < 64 \<Longrightarrow> j < 64 \<Longrightarrow> encodeURL ! i = encodeURL ! j \<Longrightarrow> i = j"
  using nth_eq_iff_index_eq [OF encodeURL_distinct, of i j]
  by (simp add: encodeURL_length)

lemma byte_bound: "unat (a :: byte) < 256"
  using unsigned_less [of a, where ?'a = nat] by simp

lemma EncodeToString_length: "length (EncodeToString bs) = 4 * ((length bs + 2) div 3)"
proof (induction bs rule: EncodeToString.induct)
  case (4 a b c rest)
  have "(5 + length rest) div 3 = Suc ((length rest + 2) div 3)"
    by arith
  with 4 show ?case by simp
qed simp_all

lemma two_digits_inj:
  fixes h l h' l' k :: nat
  assumes "l < k" "l' < k" and eq: "h * k + l = h' * k + l'"
  shows "h = h' \<and> l = l'"
proof -
  have "(h * k + l) div k = h" "(h' * k + l') div k = h'"
    using assms(1,2) by simp_all
  with eq have "h = h'" by simp
  with eq show ?thesis by simp
qed

lemma div_mod_inj:
  fixes a a' k :: nat
  assumes "a div k = a' div k" "a mod k = a' mod k"
  shows "a = a'"
  using assms by (metis div_mult_mod_eq)

lemma sextets_inj:
  fixes a b c a' b' c' :: nat
  assumes "b < 256" "c < 256" "b' < 256" "c' < 256"
      and e1: "a div 4 = a' div 4"
      and e2: "a mod 4 * 16 + b div 16 = a' mod 4 * 16 + b' div 16"
      and e3: "b mod 16 * 4 + c div 64 = b' mod 16 * 4 + c' div 64"
      and e4: "c mod 64 = c' mod 64"
  shows "a = a' \<and> b = b' \<and> c = c'"
proof -
  have bh: "b div 16 < 16" "b' div 16 < 16" and ch: "c div 64 < 4" "c' div 64 < 4"
    using assms(1-4) by simp_all
  from two_digits_inj [OF bh e2] have a2: "a mod 4 = a' mod 4" and b1: "b div 16 = b' div 16"
    by simp_all
  from two_digits_inj [OF ch e3] have b2: "b mod 16 = b' mod 16" and c1: "c div 64 = c' div 64"
    by simp_all
  from e1 a2 have "a = a'" by (rule div_mod_inj)
  moreover from b1 b2 have "b = b'" by (rule div_mod_inj)
  moreover from c1 e4 have "c = c'" by (rule div_mod_inj)
  ultimately show ?thesis by simp
qed

lemma sextet_sum:
  fixes h l :: nat
  shows "h < 4 \<Longrightarrow> l < 16 \<Longrightarrow> h * 16 + l < 64"
    and "h < 16 \<Longrightarrow> l < 4 \<Longrightarrow> h * 4 + l < 64"
  by linarith+

lemma sextet_bounds:
  fixes a b :: nat
  assumes "a < 256" "b < 256"
  shows "a div 4 < 64" "a mod 4 * 16 + b div 16 < 64" "a mod 16 * 4 + b div 64 < 64"
    "a mod 64 < 64" "a mod 4 * 16 < 64" "a mod 16 * 4 < 64"
proof -
  have s: "a mod 4 < 4" "a mod 16 < 16" "b div 16 < 16" "b div 64 < 4"
    using assms by simp_all
  show "a mod 4 * 16 + b div 16 < 64"
    by (rule sextet_sum(1) [OF s(1) s(3)])
  show "a mod 16 * 4 + b div 64 < 64"
    by (rule sextet_sum(2) [OF s(2) s(4)])
  show "a mod 4 * 16 < 64"
    using sextet_sum(1) [OF s(1), of 0] by simp
  show "a mod 16 * 4 < 64"
    using sextet_sum(2) [OF s(2), of 0] by simp
  show "a div 4 < 64" "a mod 64 < 64"
    using assms by simp_all
qed

lemma group3_inj:
  fixes a b c a' b' c' :: byte
  assumes "encodeURL ! (unat a div 4) = encodeURL ! (unat a' div 4)"
      and "encodeURL ! (unat a mod 4 * 16 + unat b div 16) =
           encodeURL ! (unat a' mod 4 * 16 + unat b' div 16)"
      and "encodeURL ! (unat b mod 16 * 4 + unat c div 64) =
           encodeURL ! (unat b' mod 16 * 4 + unat c' div 64)"
      and "encodeURL ! (unat c mod 64) = encodeURL ! (unat c' mod 64)"
  shows "a = a' \<and> b = b' \<and> c = c'"
proof -
  note bd = byte_bound [of a] byte_bound [of b] byte_bound [of c]
    byte_bound [of a'] byte_bound [of b'] byte_bound [of c']
  have "unat a div 4 = unat a' div 4"
    by (rule encodeURL_inj [OF sextet_bounds(1) sextet_bounds(1) assms(1)]) (rule bd)+
  moreover have "unat a mod 4 * 16 + unat b div 16 = unat a' mod 4 * 16 + unat b' div 16"
    by (rule encodeURL_inj [OF sextet_bounds(2) sextet_bounds(2) assms(2)]) (rule bd)+
  moreover have "unat b mod 16 * 4 + unat c div 64 = unat b' mod 16 * 4 + unat c' div 64"
    by (rule encodeURL_inj [OF sextet_bounds(3) sextet_bounds(3) assms(3)]) (rule bd)+
  moreover have "unat c mod 64 = unat c' mod 64"
    by (rule encodeURL_inj [OF sextet_bounds(4) sextet_bounds(4) assms(4)]) (rule bd)+
  ultimately have "unat a = unat a' \<and> unat b = unat b' \<and> unat c = unat c'"
    using bd by (intro sextets_inj) simp_all
  then show ?thesis by (simp add: word_unat_eq_iff)
qed

lemma group2_inj:
  fixes a b a' b' :: byte
  assumes "encodeURL ! (unat a div 4) = encodeURL ! (unat a' div 4)"
      and "encodeURL ! (unat a mod 4 * 16 + unat b div 16) =
           encodeURL ! (unat a' mod 4 * 16 + unat b' div 16)"
      and "encodeURL ! (unat b mod 16 * 4) = encodeURL ! (unat b' mod 16 * 4)"
  shows "a = a' \<and> b = b'"
proof -
  note bd = byte_bound [of a] byte_bound [of b] byte_bound [of a'] byte_bound [of b']
  have "unat a div 4 = unat a' div 4"
    by (rule encodeURL_inj [OF sextet_bounds(1) sextet_bounds(1) assms(1)]) (rule bd)+
  moreover have "unat a mod 4 * 16 + unat b div 16 = unat a' mod 4 * 16 + unat b' div 16"
    by (rule encodeURL_inj [OF sextet_bounds(2) sextet_bounds(2) assms(2)]) (rule bd)+
  moreover have "unat b mod 16 * 4 = unat b' mod 16 * 4"
    by (rule encodeURL_inj [OF sextet_bounds(6) sextet_bounds(6) assms(3)]) (rule bd)+
  ultimately have "unat a = unat a' \<and> unat b = unat b' \<and> (0::nat) = 0"
    using bd by (intro sextets_inj) simp_all
  then show ?thesis by (simp add: word_unat_eq_iff)
qed

lemma group1_inj:
  fixes a a' :: byte
  assumes "encodeURL ! (unat a div 4) = encodeURL ! (unat a' div 4)"
      and "encodeURL ! (unat a mod 4 * 16) = encodeURL ! (unat a' mod 4 * 16)"
  shows "a = a'"
proof -
  note bd = byte_bound [of a] byte_bound [of a']
  have "unat a div 4 = unat a' div 4"
    by (rule encodeURL_inj [OF sextet_bounds(1) sextet_bounds(1) assms(1)]) (rule bd)+
  moreover have "unat a mod 4 * 16 = unat a' mod 4 * 16"
    by (rule encodeURL_inj [OF sextet_bounds(5) sextet_bounds(5) assms(2)]) (rule bd)+
  ultimately have "unat a = unat a' \<and> (0::nat) = 0 \<and> (0::nat) = 0"
    by (intro sextets_inj) simp_all
  then show ?thesis by (simp add: word_unat_eq_iff)
qed

text \<open>Buffers of the same length with the same encoding are the same buffer.\<close>

lemma EncodeToString_inj:
  "length xs = length ys \<Longrightarrow> EncodeToString xs = EncodeToString ys \<Longrightarrow> xs = ys"
proof (induction xs arbitrary: ys rule: EncodeToString.induct)
  case 1
  then show ?case by simp
next
  case (2 a)
  then obtain a' where ys: "ys = [a']"
    by (cases ys) auto
  with 2 show ?case
    using group1_inj [of a a'] by simp
next
  case (3 a b)
  then obtain a' b' where ys: "ys = [a', b']"
    by (cases ys; cases "tl ys") auto
  with 3 show ?case
    using group2_inj [of a a' b b'] by simp
next
  case (4 a b c rest)
  then obtain a' b' c' rest' where ys: "ys = a' # b' # c' # rest'"
    by (cases ys; cases "tl ys"; cases "tl (tl ys)") auto
  with 4 have "rest = rest'"
    by simp
  with 4 ys show ?case
    using group3_inj [of a a' b b' c c'] by simp
qed
text \<open>Every character of an encoding is of the URL-safe alphabet or the padding.\<close>

lemma encodeURL_nth: "i < 64 \<Longrightarrow> encodeURL ! i \<in> set encodeURL"
  by (simp add: encodeURL_length)

lemma EncodeToString_alphabet: "set (EncodeToString bs) \<subseteq> set encodeURL \<union> {CHR ''=''}"
proof (induction bs rule: EncodeToString.induct)
  case 1
  show ?case by simp
next
  case (2 a)
  note b = sextet_bounds [OF byte_bound [of a] byte_bound [of a]]
  from encodeURL_nth [OF b(1)] encodeURL_nth [OF b(5)] show ?case
    by simp
next
  case (3 a b)
  note ba = sextet_bounds [OF byte_bound [of a] byte_bound [of b]]
  note bb = sextet_bounds [OF byte_bound [of b] byte_bound [of b]]
  from encodeURL_nth [OF ba(1)] encodeURL_nth [OF ba(2)] encodeURL_nth [OF bb(6)] show ?case
    by simp
next
  case (4 a b c rest)
  note ba = sextet_bounds [OF byte_bound [of a] byte_bound [of b]]
  note bb = sextet_bounds [OF byte_bound [of b] byte_bound [of c]]
  note bc = sextet_bounds [OF byte_bound [of c] byte_bound [of c]]
  from encodeURL_nth [OF ba(1)] encodeURL_nth [OF ba(2)] encodeURL_nth [OF bb(3)]
    encodeURL_nth [OF bc(4)] 4
  show ?case
    by simp
qed

text \<open>
  A read that returns has filled the buffer with the 32 bytes delivered; a read that is
  not served does not return.
\<close>

lemma rand_Read_filled:
  "rand_Read e 32 = Some b \<Longrightarrow> b = take 32 (random_bytes e) \<and> length b = 32"
  by (auto simp: rand_Read_def split: if_splits)

lemma rand_Read_terminated: "rand_Read e 32 = None \<longleftrightarrow> length (random_bytes e) < 32"
  by (simp add: rand_Read_def)

text \<open>The state that \<open>handleConnectDrive\<close> writes and sends is the encoded buffer.\<close>

lemma handleConnectDrive_state:
  assumes "handleConnectDrive e s m = Some (s', evs)"
  shows "evs =
     [FsSet stateCollection (EncodeToString (take 32 (random_bytes e))),
      Reply (ChatID m) (MessageID m)
        (if fs_set_fault e then LinkGenerationFailed
         else AuthorizeLink (auth_code_url e (EncodeToString (take 32 (random_bytes e)))))]"
    and "\<not> fs_set_fault e \<Longrightarrow>
      oauth_states s' (EncodeToString (take 32 (random_bytes e))) =
        Some \<lparr>sd_user_id = FromID m, sd_created_at = now e\<rparr>"
    and "32 \<le> length (random_bytes e)"
  using assms
  by (auto simp: handleConnectDrive_def rand_Read_def fs_Set_def replyToUser_def Let_def
           split: if_splits)

text \<open>The \<open>2^256\<close> possible buffers give \<open>2^256\<close> different tokens.\<close>

lemma state_token_count:
  "card (EncodeToString ` {bs :: byte list. length bs = 32}) = 2 ^ 256"
proof -
  have "inj_on EncodeToString {bs :: byte list. length bs = 32}"
    by (rule inj_onI) (simp add: EncodeToString_inj)
  then have "card (EncodeToString ` {bs :: byte list. length bs = 32}) =
             card {bs :: byte list. length bs = 32}"
    by (rule card_image)
  moreover have "card {bs :: byte list. length bs = 32} = card (UNIV :: byte set) ^ 32"
    using card_lists_length_eq [of "UNIV :: byte set" 32] by simp
  moreover have "card (UNIV :: byte set) = 2 ^ 8"
    by (simp only: card_word len_bit0 len_num1) simp
  moreover have "((2 :: nat) ^ 8) ^ 32 = 2 ^ (8 * 32)"
    by (rule power_mult [symmetric])
  moreover have "(8 :: nat) * 32 = 256"
    by simp
  ultimately show ?thesis
    by (simp only:)
qed

text \<open>
  C9. The state token encodes 32 bytes of the random source. Whenever
  \<open>handleConnectDrive\<close> gets to issue a state, that state is the URL-safe base64
  encoding of the 32 bytes the random source delivered to the read: 44 characters of the
  URL-safe alphabet and the padding, from which the 32 bytes can be told, so that the
  \<open>2^256\<close> possible deliveries give \<open>2^256\<close> different tokens. This holds for every
  invocation: when the random source fails, the read does not return, the process is
  terminated, and no state is written or sent.
\<close>

theorem state_token_encodes_random_bytes:
  "(length (random_bytes e) < 32 \<longrightarrow> handleConnectDrive e s m = None) \<and>
   (\<forall>s' evs. handleConnectDrive e s m = Some (s', evs) \<longrightarrow>
      (\<exists>bs state.
         bs = take 32 (random_bytes e) \<and> length bs = 32 \<and> state = EncodeToString bs \<and>
         evs = [FsSet stateCollection state,
                Reply (ChatID m) (MessageID m)
                  (if fs_set_fault e then LinkGenerationFailed
                   else AuthorizeLink (auth_code_url e state))] \<and>
         (\<not> fs_set_fault e \<longrightarrow>
            oauth_states s' state = Some \<lparr>sd_user_id = FromID m, sd_created_at = now e\<rparr>) \<and>
         length state = 44 \<and>
         set state \<subseteq> set encodeURL \<union> {CHR ''=''} \<and>
         (\<forall>bs'. length bs' = 32 \<and> EncodeToString bs' = state \<longrightarrow> bs' = bs))) \<and>
   card (EncodeToString ` {bs :: byte list. length bs = 32}) = 2 ^ 256"
proof (intro conjI allI impI)
  assume "length (random_bytes e) < 32"
  then show "handleConnectDrive e s m = None"
    by (simp add: handleConnectDrive_def rand_Read_def)
next
  fix s' evs
  assume run: "handleConnectDrive e s m = Some (s', evs)"
  define bs where "bs = take 32 (random_bytes e)"
  from handleConnectDrive_state(3) [OF run] have len: "length bs = 32"
    by (simp add: bs_def)
  have "length (EncodeToString bs) = 44"
    by (simp add: EncodeToString_length len)
  moreover have "\<forall>bs'. length bs' = 32 \<and> EncodeToString bs' = EncodeToString bs \<longrightarrow> bs' = bs"
    using EncodeToString_inj len by auto
  ultimately show "\<exists>bs state.
         bs = take 32 (random_bytes e) \<and> length bs = 32 \<and> state = EncodeToString bs \<and>
         evs = [FsSet stateCollection state,
                Reply (ChatID m) (MessageID m)
                  (if fs_set_fault e then LinkGenerationFailed
                   else AuthorizeLink (auth_code_url e state))] \<and>
         (\<not> fs_set_fault e \<longrightarrow>
            oauth_states s' state = Some \<lparr>sd_user_id = FromID m, sd_created_at = now e\<rparr>) \<and>
         length state = 44 \<and>
         set state \<subseteq> set encodeURL \<union> {CHR ''=''} \<and>
         (\<forall>bs'. length bs' = 32 \<and> EncodeToString bs' = state \<longrightarrow> bs' = bs)"
    using handleConnectDrive_state(1,2) [OF run] len EncodeToString_alphabet [of bs]
    unfolding bs_def by blast
next
  show "card (EncodeToString ` {bs :: byte list. length bs = 32}) = 2 ^ 256"
    by (rule state_token_count)
qed

text \<open>
  With 32 bytes delivered, user 42 is sent the encoding of exactly those bytes; with a
  source that delivers nothing, the handler does not get to issue a state.
\<close>

theorem state_token_encodes_random_bytes_witness:
  "handleConnectDrive sample_env empty_store connect_message =
     Some (issued_store,
      [FsSet ''oauth_states'' ''AQIDBAUGBwgJCgsMDQ4PEBESExQVFhcYGRobHB0eHyA='',
       Reply 100 1 (AuthorizeLink
         ''https://accounts.google.com/o/oauth2/auth?state=AQIDBAUGBwgJCgsMDQ4PEBESExQVFhcYGRobHB0eHyA='')]) \<and>
   EncodeToString (take 32 (random_bytes sample_env)) =
     ''AQIDBAUGBwgJCgsMDQ4PEBESExQVFhcYGRobHB0eHyA='' \<and>
   length ''AQIDBAUGBwgJCgsMDQ4PEBESExQVFhcYGRobHB0eHyA='' = 44 \<and>
   length (random_bytes (sample_env\<lparr>random_bytes := []\<rparr>)) < 32 \<and>
   handleConnectDrive (sample_env\<lparr>random_bytes := []\<rparr>) empty_store connect_message = None"
proof -
  have enc: "EncodeToString (take 32 (random_bytes sample_env)) =
     ''AQIDBAUGBwgJCgsMDQ4PEBESExQVFhcYGRobHB0eHyA=''"
    using sample_state(2) by (simp add: sample_env_def)
  from state_token_encodes_random_bytes [of sample_env empty_store connect_message] sample_issue
  have "length (EncodeToString (take 32 (random_bytes sample_env))) = 44"
    by auto
  with enc have len: "length ''AQIDBAUGBwgJCgsMDQ4PEBESExQVFhcYGRobHB0eHyA='' = 44"
    by simp
  have short: "length (random_bytes (sample_env\<lparr>random_bytes := []\<rparr>)) < 32"
    by simp
  with state_token_encodes_random_bytes
    [of "sample_env\<lparr>random_bytes := []\<rparr>" empty_store connect_message]
  have "handleConnectDrive (sample_env\<lparr>random_bytes := []\<rparr>) empty_store connect_message = None"
    by blast
  with sample_issue enc len short show ?thesis
    by simp
qed


end
